theory Spec2Isabelle
  imports Main "HOL-Library.Word"
begin

unbundle bit_operations_syntax

section \<open>The GPU thread: command ring and wake counter (gpu_thread.cpp)\<close>

type_synonym u8 = "8 word"
type_synonym u16 = "16 word"
type_synonym u32 = "32 word"
type_synonym s32 = "32 word"
type_synonym u64 = "64 word"

text \<open>The anonymous enum of namespace GPUThread.\<close>

definition COMMAND_QUEUE_SIZE :: u32 where
  "COMMAND_QUEUE_SIZE = 16 * 1024 * 1024"

definition THRESHOLD_TO_WAKE_GPU :: u32 where
  "THRESHOLD_TO_WAKE_GPU = 65536"

definition MAX_SKIPPED_PRESENT_COUNT :: u32 where
  "MAX_SKIPPED_PRESENT_COUNT = 50"

text \<open>The wake counter is a signed 32-bit atomic: a \<open>32 word\<close> read with \<open>sint\<close>.\<close>

definition THREAD_WAKE_COUNT_CPU_THREAD_IS_WAITING :: s32 where
  "THREAD_WAKE_COUNT_CPU_THREAD_IS_WAITING = 0x40000000"

definition THREAD_WAKE_COUNT_SLEEPING :: s32 where
  "THREAD_WAKE_COUNT_SLEEPING = - 1"

text \<open>
  Modelled from the spec: gpu_types.h, which declares the enumerators of
  \<open>GPUBackendCommandType\<close>, is not among the sources. The spec lists the record family
  (control: shutdown, reconfigure, async-call, wraparound; VRAM I/O; state; draws; display
  update) and says that type values greater than \<open>Shutdown\<close> route to the backend while
  lower values are worker-control. The worker's \<open>switch\<close> in \<open>GPUThreadEntryPoint\<close> handles
  exactly \<open>Wraparound\<close>, \<open>AsyncCall\<close>, \<open>Reconfigure\<close> and \<open>Shutdown\<close> below that test, the
  default case being unreachable. The names of the backend commands are those of the
  \<open>New...Command\<close> constructors of gpu_backend.h.
\<close>

datatype GPUBackendCommandType =
    Wraparound
  | AsyncCall
  | Reconfigure
  | Shutdown
  | ClearVRAM
  | ClearDisplay
  | UpdateDisplay
  | ClearCache
  | BufferSwapped
  | UpdateResolutionScale
  | ReadVRAM
  | FillVRAM
  | UpdateVRAM
  | CopyVRAM
  | SetDrawingArea
  | UpdateCLUT
  | DrawPolygon
  | DrawPrecisePolygon
  | DrawRectangle
  | DrawLine

text \<open>The enumerator's value, an \<open>u8\<close>, as the comparison \<open>cmd->type > Shutdown\<close> reads it.\<close>

fun type_code :: "GPUBackendCommandType \<Rightarrow> nat" where
  "type_code Wraparound = 0"
| "type_code AsyncCall = 1"
| "type_code Reconfigure = 2"
| "type_code Shutdown = 3"
| "type_code ClearVRAM = 4"
| "type_code ClearDisplay = 5"
| "type_code UpdateDisplay = 6"
| "type_code ClearCache = 7"
| "type_code BufferSwapped = 8"
| "type_code UpdateResolutionScale = 9"
| "type_code ReadVRAM = 10"
| "type_code FillVRAM = 11"
| "type_code UpdateVRAM = 12"
| "type_code CopyVRAM = 13"
| "type_code SetDrawingArea = 14"
| "type_code UpdateCLUT = 15"
| "type_code DrawPolygon = 16"
| "type_code DrawPrecisePolygon = 17"
| "type_code DrawRectangle = 18"
| "type_code DrawLine = 19"


text \<open>
  Modelled from the spec: the enums of settings and util/gpu_device.h are not among the
  sources. The spec's backend handle is one of \<open>{Software, Hardware}\<close>; the code only tests
  \<open>renderer != GPURenderer::Software\<close>, \<open>RenderAPI::None\<close>, \<open>GPUVSyncMode::Disabled\<close> and the four
  present results named in \<open>PresentFrame\<close>.
\<close>

datatype GPURenderer = Hardware | Software

datatype RenderAPI = RenderAPI_None | RenderAPI_Some nat

datatype GPUVSyncMode = Disabled | VSyncMode nat

datatype PresentResult = OK | SkipPresent | ExclusiveFullscreenLost | DeviceLost

text \<open>An \<open>Error\<close> object is its description.\<close>

type_synonym Error = string

text \<open>
  \<open>GPUThreadReconfigureCommand\<close>, with the fields \<open>Reconfigure\<close> fills and
  \<open>ReconfigureOnThread\<close> reads. \<open>error_ptr\<close> is \<open>None\<close> for a null pointer and otherwise
  holds what the pointed-to \<open>Error\<close> currently contains.
\<close>

record GPUThreadReconfigureCommand =
  renderer :: "GPURenderer option"
  fullscreen :: "bool option"
  start_fullscreen_ui :: "bool option"
  vsync_mode :: GPUVSyncMode
  allow_present_throttle :: bool
  force_recreate_device :: bool
  upload_vram :: bool
  error_ptr :: "Error option"
  result :: bool

text \<open>
  The callables this file hands to \<open>RunOnThread\<close> that the properties below are about: the
  lambda of \<open>StartFullscreenUI\<close> and the lambda of \<open>StopFullscreenUI\<close>. A closure cannot
  be stored in the state it acts on, so each lambda is a constructor and \<open>invoke\<close> (below)
  is its body.
\<close>

datatype AsyncCallType = StartFullscreenUI_lambda | StopFullscreenUI_lambda

datatype CommandPayload =
    NoPayload
  | AsyncCallPayload AsyncCallType
  | ReconfigurePayload GPUThreadReconfigureCommand

text \<open>
  A slot of the ring: the header fields \<open>type\<close>, \<open>size\<close> and \<open>params.bits\<close>, and what follows
  the header.
\<close>

record GPUThreadCommand =
  cmd_type :: GPUBackendCommandType
  cmd_size :: u32
  cmd_params :: u16
  cmd_payload :: CommandPayload

datatype GPUBackend = HardwareBackend | SoftwareBackend

record GPUDevice =
  render_api :: RenderAPI
  has_main_swap_chain :: bool
  gpu_timing_enabled :: bool

text \<open>
  What the worker does to its collaborators (backend, device, ImGui, host), in the order
  it does it.
\<close>

datatype Event =
    HandleCommand GPUThreadCommand
  | AcquireRenderWindow RenderAPI bool
  | ReleaseRenderWindow
  | DeviceDestroyed RenderAPI
  | DeviceCreated RenderAPI bool
  | BackendCreated GPUBackend
  | BackendDestroyed
  | AddIconOSDMessage string
  | AddIconOSDWarning string
  | SetFullscreen bool
  | ImGuiInitialized
  | ImGuiShutdown
  | FullscreenUIInitialized
  | FullscreenUIShutdown
  | RenderFullscreenUI
  | RenderTextOverlays
  | RenderOSDMessages
  | RenderSoftwareCursors
  | RenderOverlayWindows
  | RenderDebugWindows
  | PresentDisplay
  | BeginPresent
  | RenderImGui
  | FlushCommands
  | SleepUntilPresentTime u64
  | EndPresent bool u64
  | AccumulateGPUTime
  | SubmitPresent
  | ImGuiEndFrame
  | ImGuiNewFrame
  | RestoreDeviceContext
  | ThrottlePresentation


text \<open>
  \<open>struct State\<close> (the static \<open>s_state\<close>), together with the other globals the worker
  reads and writes: \<open>g_gpu_device\<close>, the function-local static \<open>s_last_gpu_reset_time\<close> of
  \<open>HandleGPUDeviceLost\<close>, whether ImGui and the fullscreen UI are initialized, and the
  events so far. A pointer into the ring is the byte offset of the slot; the ring's memory
  maps an offset to the slot that starts there. A \<open>KernelSemaphore\<close> is its count.
\<close>

record State =
  command_fifo_write_ptr :: u32
  render_window_surfaceless :: bool
  requested_renderer :: "GPURenderer option"
  command_fifo_data :: "u32 \<Rightarrow> GPUThreadCommand"
  thread_wake_count :: s32
  thread_wake_semaphore :: nat
  thread_is_done_semaphore :: nat
  gpu_backend :: "GPUBackend option"
  command_fifo_read_ptr :: u32
  skipped_present_count :: u32
  run_idle_flag :: bool
  requested_vsync :: GPUVSyncMode
  requested_allow_present_throttle :: bool
  requested_fullscreen_ui :: bool
  g_gpu_device :: "GPUDevice option"
  s_last_gpu_reset_time :: u64
  imgui_initialized :: bool
  fullscreen_ui_initialized :: bool
  events :: "Event list"

text \<open>
  The default member initializers of \<open>State\<close>; the ring's memory is allocated for overwrite,
  so its first content is a parameter.
\<close>

definition initial_State :: "(u32 \<Rightarrow> GPUThreadCommand) \<Rightarrow> State" where
  "initial_State mem =
     \<lparr> command_fifo_write_ptr = 0, render_window_surfaceless = True,
       requested_renderer = None, command_fifo_data = mem, thread_wake_count = 0,
       thread_wake_semaphore = 0, thread_is_done_semaphore = 0, gpu_backend = None,
       command_fifo_read_ptr = 0, skipped_present_count = 0, run_idle_flag = False,
       requested_vsync = Disabled, requested_allow_present_throttle = False,
       requested_fullscreen_ui = False, g_gpu_device = None, s_last_gpu_reset_time = 0,
       imgui_initialized = False, fullscreen_ui_initialized = False, events = [] \<rparr>"

definition emit :: "Event \<Rightarrow> State \<Rightarrow> State" where
  "emit e s = s\<lparr>events := events s @ [e]\<rparr>"

subsection \<open>Waking the GPU thread\<close>

definition GetThreadWakeCount :: "s32 \<Rightarrow> s32" where
  "GetThreadWakeCount state = state AND NOT THREAD_WAKE_COUNT_CPU_THREAD_IS_WAITING"

text \<open>
  \<open>fetch_add(2)\<close> returns the value before the add; the semaphore is posted when that value,
  read as signed, is negative.
\<close>

definition WakeGPUThread :: "State \<Rightarrow> State" where
  "WakeGPUThread s =
     (if sint (thread_wake_count s) < 0
      then s\<lparr>thread_wake_count := thread_wake_count s + 2,
             thread_wake_semaphore := thread_wake_semaphore s + 1\<rparr>
      else s\<lparr>thread_wake_count := thread_wake_count s + 2\<rparr>)"

subsection \<open>The producer side of the ring\<close>

text \<open>
  Modelled from the spec: common/align.h is not among the sources. The spec says the size is
  rounded up to a 4-byte multiple; \<open>AlignUpPow2\<close> does it in the type of its argument, here
  \<open>u32\<close>.
\<close>

definition AlignUpPow2 :: "u32 \<Rightarrow> u32 \<Rightarrow> u32" where
  "AlignUpPow2 v alignment = (v + (alignment - 1)) AND NOT (alignment - 1)"

text \<open>\<open>sizeof(GPUBackendCommandType)\<close>: the enum is declared \<open>: u8\<close> in gpu_thread.h.\<close>

definition sizeof_GPUBackendCommandType :: nat where
  "sizeof_GPUBackendCommandType = 1"

text \<open>
  The \<open>while\<close> loop of \<open>AllocateCommand\<close> that runs when the read pointer is ahead of the write
  pointer: it wakes the GPU thread and reloads \<open>read_ptr\<close> until the space suffices. The
  model runs one thread at a time, so the consumer does not move while the producer spins:
  a spin that needs the consumer never returns, the value \<open>None\<close>. The sum
  \<open>size + sizeof(...)\<close> is computed in \<open>size_t\<close> and cannot wrap.
\<close>

partial_function (option) AllocateCommand_wait :: "State \<Rightarrow> u32 \<Rightarrow> u32 \<Rightarrow> u32 \<Rightarrow> State option" where
  "AllocateCommand_wait s write_ptr sz available_size =
     (if unat available_size < unat sz + sizeof_GPUBackendCommandType
      then AllocateCommand_wait (WakeGPUThread s) write_ptr sz
             (if command_fifo_read_ptr (WakeGPUThread s) > write_ptr
              then command_fifo_read_ptr (WakeGPUThread s) - write_ptr
              else COMMAND_QUEUE_SIZE - write_ptr)
      else Some s)"

text \<open>The two stores \<open>cmd->type = command; cmd->size = size\<close> at offset \<open>write_ptr\<close>.\<close>

definition write_command_header :: "State \<Rightarrow> u32 \<Rightarrow> GPUBackendCommandType \<Rightarrow> u32 \<Rightarrow> State" where
  "write_command_header s write_ptr command sz =
     s\<lparr>command_fifo_data := (command_fifo_data s)
          (write_ptr := (command_fifo_data s write_ptr)\<lparr>cmd_type := command, cmd_size := sz\<rparr>)\<rparr>"

text \<open>The dummy command that wraps the buffer around, and the store of 0 to the write pointer.\<close>

definition write_wraparound :: "State \<Rightarrow> u32 \<Rightarrow> u32 \<Rightarrow> State" where
  "write_wraparound s write_ptr available_size =
     s\<lparr>command_fifo_data := (command_fifo_data s)
          (write_ptr := (command_fifo_data s write_ptr)
             \<lparr>cmd_type := Wraparound, cmd_size := available_size, cmd_params := 0\<rparr>),
       command_fifo_write_ptr := 0\<rparr>"

text \<open>
  The \<open>for (;;)\<close> loop of \<open>AllocateCommand\<close>, after the size has been aligned. The first
  argument is \<open>sizeof(GPUBackendCommand)\<close>: the struct is declared in gpu_types.h, which is
  not among the sources. The result is the state and the offset of the returned slot.
\<close>

partial_function (option) AllocateCommand_loop ::
    "nat \<Rightarrow> State \<Rightarrow> GPUBackendCommandType \<Rightarrow> u32 \<Rightarrow> (State \<times> u32) option" where
  "AllocateCommand_loop sizeof_GPUBackendCommand s command sz =
     (if command_fifo_read_ptr s > command_fifo_write_ptr s
      then (case AllocateCommand_wait s (command_fifo_write_ptr s) sz
                   (command_fifo_read_ptr s - command_fifo_write_ptr s) of
              None \<Rightarrow> None
            | Some s' \<Rightarrow>
                Some (write_command_header s' (command_fifo_write_ptr s) command sz,
                      command_fifo_write_ptr s))
      else if unat sz + sizeof_GPUBackendCommand > unat (COMMAND_QUEUE_SIZE - command_fifo_write_ptr s)
      then AllocateCommand_loop sizeof_GPUBackendCommand
             (write_wraparound s (command_fifo_write_ptr s)
                (COMMAND_QUEUE_SIZE - command_fifo_write_ptr s)) command sz
      else Some (write_command_header s (command_fifo_write_ptr s) command sz,
                 command_fifo_write_ptr s))"

definition AllocateCommand ::
    "nat \<Rightarrow> State \<Rightarrow> GPUBackendCommandType \<Rightarrow> u32 \<Rightarrow> (State \<times> u32) option" where
  "AllocateCommand sizeof_GPUBackendCommand s command sz =
     AllocateCommand_loop sizeof_GPUBackendCommand s command (AlignUpPow2 sz 4)"

definition GetPendingCommandSize :: "State \<Rightarrow> u32" where
  "GetPendingCommandSize s =
     (if command_fifo_write_ptr s \<ge> command_fifo_read_ptr s
      then command_fifo_write_ptr s - command_fifo_read_ptr s
      else COMMAND_QUEUE_SIZE - command_fifo_read_ptr s + command_fifo_write_ptr s)"

text \<open>
  The \<open>fetch_add\<close> that the three push functions share. The \<open>DebugAssert\<close> on the new write
  pointer is compiled out of release builds and has no effect here.
\<close>

definition advance_write_ptr :: "State \<Rightarrow> u32 \<Rightarrow> State" where
  "advance_write_ptr s cmd =
     s\<lparr>command_fifo_write_ptr := command_fifo_write_ptr s + cmd_size (command_fifo_data s cmd)\<rparr>"

definition PushCommand :: "State \<Rightarrow> u32 \<Rightarrow> State" where
  "PushCommand s cmd =
     (if GetPendingCommandSize (advance_write_ptr s cmd) \<ge> THRESHOLD_TO_WAKE_GPU
      then WakeGPUThread (advance_write_ptr s cmd)
      else advance_write_ptr s cmd)"

definition PushCommandAndWakeThread :: "State \<Rightarrow> u32 \<Rightarrow> State" where
  "PushCommandAndWakeThread s cmd = WakeGPUThread (advance_write_ptr s cmd)"


subsection \<open>The collaborators\<close>

text \<open>
  What the worker's collaborators answer when it calls them (the device factory, the host,
  ImGui, the backends, the settings, the swap chain, the timer): none of them is among the
  sources, so each answer is a field of this record and every function below takes it.
  \<open>acquire_render_window\<close> answers \<open>Some surfaceless\<close> or \<open>None\<close> for failure;
  \<open>backend_initialize\<close> answers \<open>None\<close> for success and the error otherwise.

  Modelled from the spec: common/timer.h is not among the sources. A timer value counts
  ticks, \<open>timer_frequency\<close> of them to a second, so \<open>ConvertValueToSeconds(v) < 15\<close> is
  \<open>v < 15 * timer_frequency\<close>; the spec's minimum interval between two recoveries is 15 s.
\<close>

record Host =
  system_is_valid :: bool
  system_is_running :: bool
  host_is_fullscreen :: bool
  create_device_for_api :: "RenderAPI \<Rightarrow> bool"
  supports_exclusive_fullscreen :: bool
  fullscreen_mode_setting :: bool
  acquire_render_window :: "RenderAPI \<Rightarrow> bool \<Rightarrow> bool \<Rightarrow> bool option"
  device_create_ok :: "RenderAPI \<Rightarrow> bool"
  imgui_initialize_ok :: bool
  fullscreen_ui_initialize_ok :: bool
  backend_initialize :: "GPUBackend \<Rightarrow> bool \<Rightarrow> Error option"
  render_api_for_renderer :: "GPURenderer \<Rightarrow> RenderAPI"
  is_same_render_api :: "RenderAPI \<Rightarrow> RenderAPI \<Rightarrow> bool"
  settings_gpu_renderer :: GPURenderer
  settings_display_show_gpu_usage :: bool
  should_skip_presenting_frame :: bool
  present_display_result :: PresentResult
  begin_present_result :: PresentResult
  feature_explicit_present :: bool
  feature_timed_present :: bool
  vsync_mode_blocking :: bool
  timer_current_value :: u64
  timer_frequency :: nat

text \<open>
  What ends the process or is undefined in C++: \<open>Panic\<close>, \<open>std::optional::value()\<close> on an
  empty optional, a call through a null \<open>g_gpu_device\<close> or \<open>gpu_backend\<close>, and a slot whose
  type does not match what follows its header.
\<close>

datatype Fault = Panic string | BadOptionalAccess | NullPointer | BadCast

subsection \<open>Creating and destroying the device and the backend\<close>

text \<open>
  The failure branch of \<open>CreateDeviceOnThread\<close>: the device, when the factory returned one, is
  destroyed and reset, and the window, when one was acquired, is released.
\<close>

definition device_create_failed ::
    "RenderAPI \<Rightarrow> bool \<Rightarrow> bool option \<Rightarrow> State \<Rightarrow> Error option \<times> State" where
  "device_create_failed api dev wi s =
     (Some ''Failed to create render device'',
      (if wi \<noteq> None then emit ReleaseRenderWindow else id)
        ((if dev then emit (DeviceDestroyed api) else id) (s\<lparr>g_gpu_device := None\<rparr>)))"

text \<open>
  \<open>CreateDeviceOnThread\<close>: the result is \<open>None\<close> for \<open>true\<close> and the error it sets for \<open>false\<close>.
  The main swap chain exists when the acquired window is not surfaceless. The \<open>||\<close> of the
  second test short-circuits: \<open>FullscreenUI::Initialize\<close> runs only after
  \<open>ImGuiManager::Initialize\<close> has succeeded, so on that failure path ImGui has been
  initialized before both are shut down.
\<close>

definition CreateDeviceOnThread :: "Host \<Rightarrow> RenderAPI \<Rightarrow> bool \<Rightarrow> State \<Rightarrow> Error option \<times> State" where
  "CreateDeviceOnThread h api fs s =
     (if \<not> create_device_for_api h api then device_create_failed api False None s
      else
        let excl = (fs \<and> supports_exclusive_fullscreen h \<and> fullscreen_mode_setting h);
            wi = acquire_render_window h api fs excl;
            s1 = emit (AcquireRenderWindow api fs) s
        in case wi of
             None \<Rightarrow> device_create_failed api True wi s1
           | Some surfaceless \<Rightarrow>
               if \<not> device_create_ok h api then device_create_failed api True wi s1
               else
                 let s2 = emit (DeviceCreated api fs)
                            (s1\<lparr>g_gpu_device := Some \<lparr>render_api = api,
                                  has_main_swap_chain = \<not> surfaceless, gpu_timing_enabled = False\<rparr>\<rparr>)
                 in if \<not> imgui_initialize_ok h
                       \<or> (requested_fullscreen_ui s2 \<and> \<not> fullscreen_ui_initialize_ok h)
                    then (Some ''Failed to initialize ImGuiManager'',
                          emit ReleaseRenderWindow
                            (emit (DeviceDestroyed api)
                               (emit ImGuiShutdown
                                  (emit FullscreenUIShutdown
                                     ((if imgui_initialize_ok h then emit ImGuiInitialized else id)
                                        (s2\<lparr>g_gpu_device := None, imgui_initialized := False,
                                             fullscreen_ui_initialized := False\<rparr>))))))
                    else (None,
                          (if requested_fullscreen_ui s2 then emit FullscreenUIInitialized else id)
                            (emit ImGuiInitialized
                               (s2\<lparr>imgui_initialized := True,
                                    fullscreen_ui_initialized :=
                                      (fullscreen_ui_initialized s2 \<or> requested_fullscreen_ui s2),
                                    render_window_surfaceless := surfaceless\<rparr>))))"

definition DestroyDeviceOnThread :: "State \<Rightarrow> State" where
  "DestroyDeviceOnThread s =
     (case g_gpu_device s of
        None \<Rightarrow> s
      | Some d \<Rightarrow>
          (if has_main_swap_chain d then emit ReleaseRenderWindow else id)
            (emit (DeviceDestroyed (render_api d))
               (emit ImGuiShutdown
                  (emit FullscreenUIShutdown
                     (s\<lparr>g_gpu_device := None, imgui_initialized := False,
                         fullscreen_ui_initialized := False,
                         render_window_surfaceless := True\<rparr>)))))"

definition DestroyGPUBackendOnThread :: "State \<Rightarrow> State" where
  "DestroyGPUBackendOnThread s =
     (case gpu_backend s of
        None \<Rightarrow> s
      | Some b \<Rightarrow> emit BackendDestroyed (s\<lparr>gpu_backend := None\<rparr>))"

text \<open>
  The tail of \<open>CreateGPUBackendOnThread\<close> once a backend is initialized:
  \<open>g_gpu_device->SetGPUTimingEnabled(g_settings.display_show_gpu_usage)\<close> and \<open>return true\<close>.
\<close>

definition backend_created :: "Host \<Rightarrow> State \<Rightarrow> Fault + (Error option \<times> State)" where
  "backend_created h s =
     (case g_gpu_device s of
        None \<Rightarrow> Inl NullPointer
      | Some d \<Rightarrow>
          Inr (None, s\<lparr>g_gpu_device :=
                         Some (d\<lparr>gpu_timing_enabled := settings_display_show_gpu_usage h\<rparr>)\<rparr>))"

text \<open>
  \<open>CreateGPUBackendOnThread\<close>: the result is \<open>None\<close> for \<open>true\<close>, and for \<open>false\<close> the local
  error, which the function copies to \<open>*error\<close> when \<open>error\<close> is not null.
\<close>

definition CreateGPUBackendOnThread ::
    "Host \<Rightarrow> GPURenderer \<Rightarrow> bool \<Rightarrow> State \<Rightarrow> Fault + (Error option \<times> State)" where
  "CreateGPUBackendOnThread h rend upload s =
     (let is_hardware = (rend \<noteq> Software);
          b = (if is_hardware then HardwareBackend else SoftwareBackend);
          s1 = emit (BackendCreated b) (s\<lparr>gpu_backend := Some b\<rparr>)
      in case backend_initialize h b upload of
           None \<Rightarrow> backend_created h s1
         | Some local_error \<Rightarrow>
             if is_hardware then
               (case requested_renderer s1 of
                  None \<Rightarrow> Inl BadOptionalAccess
                | Some r \<Rightarrow>
                    let s2 = emit (AddIconOSDMessage ''GPUBackendCreationFailed'') s1;
                        s3 = emit (BackendCreated SoftwareBackend)
                               (s2\<lparr>requested_renderer := Some Software,
                                    gpu_backend := Some SoftwareBackend\<rparr>)
                    in (case backend_initialize h SoftwareBackend upload of
                          None \<Rightarrow> backend_created h s3
                        | Some local_error2 \<Rightarrow> Inr (Some local_error2, s3)))
             else Inr (Some local_error, s1))"


subsection \<open>Device loss\<close>

text \<open>
  \<open>HandleGPUDeviceLost\<close>. \<open>current_time - s_last_gpu_reset_time\<close> is a subtraction of
  \<open>u64\<close> timer values. \<open>Panic\<close> does not return.
\<close>

definition HandleGPUDeviceLost :: "Host \<Rightarrow> State \<Rightarrow> Fault + State" where
  "HandleGPUDeviceLost h s =
     (let current_time = timer_current_value h in
      if s_last_gpu_reset_time s \<noteq> 0
         \<and> unat (current_time - s_last_gpu_reset_time s) < 15 * timer_frequency h
      then Inl (Panic ''Host GPU lost too many times, device is probably completely wedged.'')
      else
        let s1 = s\<lparr>s_last_gpu_reset_time := current_time\<rparr>;
            is_fullscreen = host_is_fullscreen h;
            s2 = DestroyDeviceOnThread (DestroyGPUBackendOnThread s1);
            api = render_api_for_renderer h
                    (case requested_renderer s2 of None \<Rightarrow> settings_gpu_renderer h | Some r \<Rightarrow> r)
        in case CreateDeviceOnThread h api is_fullscreen s2 of
             (Some e, s3) \<Rightarrow> Inl (Panic ''Failed to recreate GPU device after loss.'')
           | (None, s3) \<Rightarrow>
               (case requested_renderer s3 of
                  None \<Rightarrow> Inr (emit (AddIconOSDWarning ''HostGPUDeviceLost'') s3)
                | Some r \<Rightarrow>
                    (case CreateGPUBackendOnThread h r True s3 of
                       Inl f \<Rightarrow> Inl f
                     | Inr (Some e, s4) \<Rightarrow> Inl (Panic ''Failed to recreate GPU device after loss.'')
                     | Inr (None, s4) \<Rightarrow> Inr (emit (AddIconOSDWarning ''HostGPUDeviceLost'') s4))))"

definition HandleExclusiveFullscreenLost :: "State \<Rightarrow> State" where
  "HandleExclusiveFullscreenLost s = emit (SetFullscreen False) s"

subsection \<open>Reconfiguration on the GPU thread\<close>

text \<open>\<open>if (error) *error = e\<close>, and \<open>Error::SetString...(error, e)\<close>, for an \<open>Error*\<close>.\<close>

definition set_error :: "Error option \<Rightarrow> Error \<Rightarrow> Error option" where
  "set_error ptr e = (case ptr of None \<Rightarrow> None | Some old \<Rightarrow> Some e)"

text \<open>
  The \<open>GPUBackendReadVRAMCommand\<close> that \<open>ReconfigureOnThread\<close> builds on its stack to read the
  old VRAM back: \<open>size\<close> is \<open>sizeof(cmd)\<close>, the size of a pointer.
\<close>

definition readback_command :: GPUThreadCommand where
  "readback_command = \<lparr>cmd_type = ReadVRAM, cmd_size = 8, cmd_params = 0, cmd_payload = NoPayload\<rparr>"

text \<open>
  The part of \<open>ReconfigureOnThread\<close> after the device is in place: the backend or the
  fullscreen UI is brought up and \<open>cmd->result\<close> is set.
\<close>

definition Reconfigure_finish ::
    "Host \<Rightarrow> RenderAPI \<Rightarrow> GPUThreadReconfigureCommand \<Rightarrow> State
       \<Rightarrow> Fault + (GPUThreadReconfigureCommand \<times> State)" where
  "Reconfigure_finish h expected_api cmd s =
     (case renderer cmd of
        Some r \<Rightarrow>
          (case CreateGPUBackendOnThread h r (upload_vram cmd) s of
             Inl f \<Rightarrow> Inl f
           | Inr (None, s1) \<Rightarrow> Inr (cmd\<lparr>result := True\<rparr>, s1)
           | Inr (Some e, s1) \<Rightarrow>
               Inr (cmd\<lparr>result := False, error_ptr := set_error (error_ptr cmd) e\<rparr>, s1))
      | None \<Rightarrow>
          if requested_fullscreen_ui s then
            (case (if g_gpu_device s = None
                   then CreateDeviceOnThread h expected_api
                          (case fullscreen cmd of None \<Rightarrow> False | Some f \<Rightarrow> f) s
                   else (None, s)) of
               (Some e, s1) \<Rightarrow>
                 Inr (cmd\<lparr>result := False, error_ptr := set_error (error_ptr cmd) e\<rparr>, s1)
             | (None, s1) \<Rightarrow>
                 (case g_gpu_device s1 of
                    None \<Rightarrow> Inl NullPointer
                  | Some d \<Rightarrow>
                      let s2 = s1\<lparr>g_gpu_device := Some (d\<lparr>gpu_timing_enabled := False\<rparr>)\<rparr> in
                      if fullscreen_ui_initialized s2 then Inr (cmd\<lparr>result := True\<rparr>, s2)
                      else if fullscreen_ui_initialize_ok h
                      then Inr (cmd\<lparr>result := True\<rparr>,
                                emit FullscreenUIInitialized (s2\<lparr>fullscreen_ui_initialized := True\<rparr>))
                      else Inr (cmd\<lparr>result := False,
                                    error_ptr := set_error (error_ptr cmd)
                                                   ''Failed to initialize FullscreenUI.''\<rparr>, s2)))
          else Inr (cmd, DestroyDeviceOnThread s))"

definition ReconfigureOnThread ::
    "Host \<Rightarrow> GPUThreadReconfigureCommand \<Rightarrow> State
       \<Rightarrow> Fault + (GPUThreadReconfigureCommand \<times> State)" where
  "ReconfigureOnThread h cmd s =
     (let s1 = s\<lparr>requested_vsync := vsync_mode cmd,
                  requested_allow_present_throttle := allow_present_throttle cmd,
                  requested_fullscreen_ui :=
                    (case start_fullscreen_ui cmd of
                       None \<Rightarrow> requested_fullscreen_ui s | Some b \<Rightarrow> b)\<rparr>
      in if renderer cmd = None \<and> \<not> requested_fullscreen_ui s1
         then Inr (cmd, DestroyDeviceOnThread (DestroyGPUBackendOnThread s1))
         else
           let s2 = (if gpu_backend s1 \<noteq> None \<and> renderer cmd \<noteq> None \<and> upload_vram cmd
                     then emit (HandleCommand readback_command) s1 else s1);
               s3 = DestroyGPUBackendOnThread s2;
               current_api = (case g_gpu_device s3 of
                                None \<Rightarrow> RenderAPI_None | Some d \<Rightarrow> render_api d);
               expected_api =
                 (if renderer cmd = Some Software \<and> current_api \<noteq> RenderAPI_None
                  then current_api
                  else render_api_for_renderer h
                         (case requested_renderer s3 of
                            None \<Rightarrow> settings_gpu_renderer h | Some r \<Rightarrow> r))
           in if force_recreate_device cmd \<or> \<not> is_same_render_api h current_api expected_api
              then
                let fs = (case fullscreen cmd of None \<Rightarrow> host_is_fullscreen h | Some f \<Rightarrow> f) in
                (case CreateDeviceOnThread h expected_api fs (DestroyDeviceOnThread s3) of
                   (None, s4) \<Rightarrow> Reconfigure_finish h expected_api cmd s4
                 | (Some e, s4) \<Rightarrow>
                     let s5 = emit ReleaseRenderWindow
                                (emit (AddIconOSDMessage ''DeviceSwitchFailed'') s4) in
                     if current_api = RenderAPI_None
                     then Inr (cmd\<lparr>result := False, error_ptr := set_error (error_ptr cmd) e\<rparr>, s5)
                     else
                       (case CreateDeviceOnThread h current_api fs s5 of
                          (None, s6) \<Rightarrow> Reconfigure_finish h expected_api cmd s6
                        | (Some e2, s6) \<Rightarrow>
                            Inr (cmd\<lparr>result := False,
                                     error_ptr := set_error (error_ptr cmd) e2\<rparr>, s6)))
              else Reconfigure_finish h expected_api cmd s3)"


subsection \<open>Presenting a frame\<close>

text \<open>The overlays rendered when the frame is not skipped.\<close>

definition render_overlays :: "Host \<Rightarrow> State \<Rightarrow> State" where
  "render_overlays h s =
     emit RenderDebugWindows
       (emit RenderOverlayWindows
          ((if gpu_backend s \<noteq> None \<and> system_is_running h then emit RenderSoftwareCursors else id)
             (emit RenderOSDMessages
                ((if gpu_backend s \<noteq> None \<and> system_is_valid h then emit RenderTextOverlays else id)
                   (emit RenderFullscreenUI s)))))"

text \<open>The branch of \<open>PresentFrame\<close> for \<open>pres == PresentResult::OK\<close>.\<close>

definition present_ok :: "Host \<Rightarrow> GPUDevice \<Rightarrow> u64 \<Rightarrow> State \<Rightarrow> State" where
  "present_ok h d present_time s =
     (let scheduled_present = (present_time \<noteq> 0);
          explicit_present = (scheduled_present \<and> feature_explicit_present h \<and> \<not> feature_timed_present h);
          timed_present = (scheduled_present \<and> feature_timed_present h);
          s1 = emit RenderImGui (s\<lparr>skipped_present_count := 0\<rparr>);
          s2 = (if scheduled_present \<and> \<not> explicit_present
                then emit (SleepUntilPresentTime present_time) (emit FlushCommands s1) else s1);
          s3 = emit (EndPresent explicit_present (if timed_present then present_time else 0)) s2;
          s4 = (if gpu_timing_enabled d then emit AccumulateGPUTime s3 else s3)
      in if explicit_present
         then emit SubmitPresent (emit (SleepUntilPresentTime present_time) s4)
         else s4)"

text \<open>
  \<open>GPUThread::Internal::PresentFrame\<close>. \<open>ShouldSkipPresentingFrame\<close> is asked of the main swap
  chain only when there is one and skipping is allowed.
\<close>

definition skip_present :: "Host \<Rightarrow> GPUDevice \<Rightarrow> bool \<Rightarrow> State \<Rightarrow> bool" where
  "skip_present h d allow_skip_present s =
     (\<not> has_main_swap_chain d
      \<or> (allow_skip_present \<and> should_skip_presenting_frame h
          \<and> skipped_present_count s < MAX_SKIPPED_PRESENT_COUNT))"

definition present_result :: "Host \<Rightarrow> bool \<Rightarrow> State \<Rightarrow> PresentResult \<times> State" where
  "present_result h skip s =
     (if skip then (SkipPresent, s)
      else if gpu_backend s \<noteq> None then (present_display_result h, emit PresentDisplay s)
      else (begin_present_result h, emit BeginPresent s))"

definition end_frame :: "State \<Rightarrow> State" where
  "end_frame s =
     (if gpu_backend s \<noteq> None then emit RestoreDeviceContext else id) (emit ImGuiNewFrame s)"

definition PresentFrame :: "Host \<Rightarrow> bool \<Rightarrow> u64 \<Rightarrow> State \<Rightarrow> Fault + State" where
  "PresentFrame h allow_skip_present present_time s =
     (case g_gpu_device s of
        None \<Rightarrow> Inl NullPointer
      | Some d \<Rightarrow>
          let skip = skip_present h d allow_skip_present s;
              s1 = (if \<not> skip then render_overlays h s else s);
              (pres, s2) = present_result h skip s1
          in if pres = OK then Inr (end_frame (present_ok h d present_time s2))
             else
               let s3 = s2\<lparr>skipped_present_count := skipped_present_count s2 + 1\<rparr> in
               if pres = DeviceLost then
                 (case HandleGPUDeviceLost h s3 of
                    Inl f \<Rightarrow> Inl f
                  | Inr s4 \<Rightarrow> Inr (end_frame (emit ImGuiEndFrame s4)))
               else if pres = ExclusiveFullscreenLost
               then Inr (end_frame (emit ImGuiEndFrame (HandleExclusiveFullscreenLost s3)))
               else if \<not> skip then Inr (end_frame (emit ImGuiEndFrame (emit FlushCommands s3)))
               else Inr (end_frame (emit ImGuiEndFrame s3)))"


subsection \<open>The consumer side of the ring\<close>

text \<open>
  \<open>SleepGPUThread\<close>. With one thread running at a time the compare-exchange succeeds at its
  first try. \<open>thread_wake_semaphore.Wait()\<close> takes one post when there is one, and the loop
  goes round; with no post the thread is parked, \<open>Parked\<close>.
\<close>

datatype SleepResult = Returned bool State | Parked State

function SleepGPUThread :: "bool \<Rightarrow> State \<Rightarrow> SleepResult" where
  "SleepGPUThread allow_sleep s =
     (let old_state = thread_wake_count s;
          new_state = (if sint (GetThreadWakeCount old_state) > 0
                       then old_state AND THREAD_WAKE_COUNT_CPU_THREAD_IS_WAITING
                       else if allow_sleep then THREAD_WAKE_COUNT_SLEEPING else 0);
          s1 = s\<lparr>thread_wake_count := new_state\<rparr>
      in if sint (GetThreadWakeCount old_state) > 0 then Returned True s1
         else
           let s2 = (if old_state AND THREAD_WAKE_COUNT_CPU_THREAD_IS_WAITING \<noteq> 0
                     then s1\<lparr>thread_is_done_semaphore := thread_is_done_semaphore s1 + 1\<rparr>
                     else s1)
           in if allow_sleep
              then (if thread_wake_semaphore s2 = 0 then Parked s2
                    else SleepGPUThread allow_sleep
                           (s2\<lparr>thread_wake_semaphore := thread_wake_semaphore s2 - 1\<rparr>))
              else Returned False s2)"
  by pat_completeness auto
termination
  by (relation "measure (\<lambda>(a, s). thread_wake_semaphore s)") (auto split: if_splits)

declare SleepGPUThread.simps [simp del]

text \<open>The bodies of the lambdas, as the source has them.\<close>

fun invoke :: "AsyncCallType \<Rightarrow> State \<Rightarrow> State" where
  "invoke StartFullscreenUI_lambda s = s\<lparr>requested_fullscreen_ui := True\<rparr>"
| "invoke StopFullscreenUI_lambda s = s\<lparr>requested_fullscreen_ui := True\<rparr>"

text \<open>
  How a run of the GPU thread stands: it returned after \<open>Shutdown\<close>, it is parked on its wake
  semaphore, it ended in a fault, or the steps allotted to the run are used up.
\<close>

datatype Outcome = Exited State | Asleep State | Faulted Fault | OutOfFuel State

text \<open>
  The inner loop \<open>while (read_ptr < write_ptr)\<close> of \<open>GPUThreadEntryPoint\<close>, with the locals
  \<open>read_ptr\<close> and \<open>write_ptr\<close>; each command takes one step of the fuel. \<open>Inr\<close> is the
  loop's normal end with the local \<open>read_ptr\<close>. A command above \<open>Shutdown\<close> goes to the
  backend's \<open>HandleCommand\<close>, which is not among the sources: the event records the call.
\<close>

fun process_commands :: "nat \<Rightarrow> Host \<Rightarrow> State \<Rightarrow> u32 \<Rightarrow> u32 \<Rightarrow> Outcome + (State \<times> u32)" where
  "process_commands 0 h s read_ptr write_ptr =
     (if read_ptr < write_ptr then Inl (OutOfFuel s) else Inr (s, read_ptr))"
| "process_commands (Suc n) h s read_ptr write_ptr =
     (if read_ptr < write_ptr then
        let cmd = command_fifo_data s read_ptr;
            read_ptr' = read_ptr + cmd_size cmd
        in if type_code (cmd_type cmd) > type_code Shutdown then
             (if gpu_backend s = None then Inl (Faulted NullPointer)
              else process_commands n h (emit (HandleCommand cmd) s) read_ptr' write_ptr)
           else if cmd_type cmd = Wraparound then
             process_commands n h (s\<lparr>command_fifo_read_ptr := 0\<rparr>) 0 (command_fifo_write_ptr s)
           else if cmd_type cmd = AsyncCall then
             (case cmd_payload cmd of
                AsyncCallPayload func \<Rightarrow> process_commands n h (invoke func s) read_ptr' write_ptr
              | _ \<Rightarrow> Inl (Faulted BadCast))
           else if cmd_type cmd = Reconfigure then
             (case cmd_payload cmd of
                ReconfigurePayload rc \<Rightarrow>
                  (case ReconfigureOnThread h rc s of
                     Inl f \<Rightarrow> Inl (Faulted f)
                   | Inr (rc', s') \<Rightarrow>
                       process_commands n h
                         (s'\<lparr>command_fifo_data := (command_fifo_data s')
                               (read_ptr := cmd\<lparr>cmd_payload := ReconfigurePayload rc'\<rparr>)\<rparr>)
                         read_ptr' write_ptr)
              | _ \<Rightarrow> Inl (Faulted BadCast))
           else Inl (Exited (s\<lparr>command_fifo_read_ptr := read_ptr'\<rparr>))
      else Inr (s, read_ptr))"

text \<open>
  The outer \<open>for (;;)\<close> loop of \<open>GPUThreadEntryPoint\<close>; each round takes one step of the fuel,
  and the inner loop gets what is left.
\<close>

fun GPUThreadEntryPoint :: "nat \<Rightarrow> Host \<Rightarrow> State \<Rightarrow> Outcome" where
  "GPUThreadEntryPoint 0 h s = OutOfFuel s"
| "GPUThreadEntryPoint (Suc n) h s =
     (let write_ptr = command_fifo_write_ptr s;
          read_ptr = command_fifo_read_ptr s
      in if read_ptr = write_ptr then
           (case SleepGPUThread (\<not> run_idle_flag s) s of
              Parked s1 \<Rightarrow> Asleep s1
            | Returned True s1 \<Rightarrow> GPUThreadEntryPoint n h s1
            | Returned False s1 \<Rightarrow>
                (case PresentFrame h False 0 s1 of
                   Inl f \<Rightarrow> Faulted f
                 | Inr s2 \<Rightarrow>
                     if g_gpu_device s2 = None then Faulted NullPointer
                     else GPUThreadEntryPoint n h
                            (if \<not> vsync_mode_blocking h then emit ThrottlePresentation s2 else s2)))
         else
           (case process_commands n h s read_ptr
                   (if write_ptr < read_ptr then COMMAND_QUEUE_SIZE else write_ptr) of
              Inl out \<Rightarrow> out
            | Inr (s1, read_ptr') \<Rightarrow>
                GPUThreadEntryPoint n h (s1\<lparr>command_fifo_read_ptr := read_ptr'\<rparr>)))"

subsection \<open>Posting work from the CPU thread\<close>

text \<open>
  \<open>RunOnThread\<close>: the slot is allocated, the callable is moved into it, and the command is
  pushed with a wake. The second argument is \<open>sizeof(GPUThreadAsyncCallCommand)\<close>.
\<close>

definition RunOnThread :: "nat \<Rightarrow> u32 \<Rightarrow> State \<Rightarrow> AsyncCallType \<Rightarrow> State option" where
  "RunOnThread sizeof_GPUBackendCommand sizeof_AsyncCallCommand s func =
     (case AllocateCommand sizeof_GPUBackendCommand s AsyncCall sizeof_AsyncCallCommand of
        None \<Rightarrow> None
      | Some (s1, cmd) \<Rightarrow>
          Some (PushCommandAndWakeThread
                  (s1\<lparr>command_fifo_data := (command_fifo_data s1)
                        (cmd := (command_fifo_data s1 cmd)\<lparr>cmd_payload := AsyncCallPayload func\<rparr>)\<rparr>)
                  cmd))"

text \<open>
  \<open>Reconfigure\<close> up to its call of \<open>SyncGPUThread\<close>: the slot is allocated and filled, the
  write pointer is advanced and the GPU thread is woken. The CPU thread then waits until the
  GPU thread has drained the ring, and reads \<open>cmd->result\<close> from the slot, whose offset is
  returned. The third argument is \<open>sizeof(GPUThreadReconfigureCommand)\<close>; the vsync mode and
  the throttle flag come from \<open>System\<close>.
\<close>

definition Reconfigure_publish ::
    "nat \<Rightarrow> u32 \<Rightarrow> State \<Rightarrow> GPUThreadReconfigureCommand \<Rightarrow> (State \<times> u32) option" where
  "Reconfigure_publish sizeof_GPUBackendCommand sizeof_ReconfigureCommand s rc =
     (case AllocateCommand sizeof_GPUBackendCommand s Reconfigure sizeof_ReconfigureCommand of
        None \<Rightarrow> None
      | Some (s1, cmd) \<Rightarrow>
          Some (PushCommandAndWakeThread
                  (s1\<lparr>command_fifo_data := (command_fifo_data s1)
                        (cmd := (command_fifo_data s1 cmd)\<lparr>cmd_payload := ReconfigurePayload rc\<rparr>)\<rparr>)
                  cmd, cmd))"

text \<open>
  \<open>StopFullscreenUI\<close>, up to the point where it returns or waits for the GPU thread. The
  record \<open>sz\<close> holds the three sizes; \<open>vs\<close> and \<open>thr\<close> are the vsync mode and the throttle
  flag that \<open>Reconfigure\<close> reads from \<open>System\<close>.
\<close>

record Sizes =
  sizeof_GPUBackendCommand :: nat
  sizeof_GPUThreadAsyncCallCommand :: u32
  sizeof_GPUThreadReconfigureCommand :: u32

definition StopFullscreenUI :: "Sizes \<Rightarrow> Host \<Rightarrow> GPUVSyncMode \<Rightarrow> bool \<Rightarrow> State \<Rightarrow> State option" where
  "StopFullscreenUI sz h vs thr s =
     (if system_is_valid h
      then RunOnThread (sizeof_GPUBackendCommand sz) (sizeof_GPUThreadAsyncCallCommand sz) s
             StopFullscreenUI_lambda
      else map_option fst
             (Reconfigure_publish (sizeof_GPUBackendCommand sz)
                (sizeof_GPUThreadReconfigureCommand sz) s
                \<lparr>renderer = None, fullscreen = None, start_fullscreen_ui = Some False,
                  vsync_mode = vs, allow_present_throttle = thr, force_recreate_device = False,
                  upload_vram = False, error_ptr = None, result = False\<rparr>))"


subsection \<open>Fixtures\<close>

text \<open>A ring whose memory is all zero bytes: type code 0 and size 0 at every offset.\<close>

definition zeroed_ring :: "u32 \<Rightarrow> GPUThreadCommand" where
  "zeroed_ring = (\<lambda>_. \<lparr>cmd_type = Wraparound, cmd_size = 0, cmd_params = 0, cmd_payload = NoPayload\<rparr>)"

text \<open>
  The pending byte count in the spec's words: the distance from \<open>read\<close> to \<open>write\<close>, going
  round the end of the ring when \<open>write\<close> is behind \<open>read\<close>.
\<close>

definition pending_bytes :: "nat \<Rightarrow> nat \<Rightarrow> nat" where
  "pending_bytes r w = (if r \<le> w then w - r else unat COMMAND_QUEUE_SIZE - r + w)"

text \<open>
  No \<open>Wraparound\<close> slot among the commands handed to the backend's \<open>HandleCommand\<close> so far.
\<close>

definition wraparound_free :: "State \<Rightarrow> bool" where
  "wraparound_free s = (\<forall>c. HandleCommand c \<in> set (events s) \<longrightarrow> cmd_type c \<noteq> Wraparound)"


text \<open>
  Collaborators for the concrete runs below: a valid, running system, a device factory and
  a host that always succeed, backends that initialize, and a swap chain that never asks to
  skip. The timer stands at 1000 ticks, 10 ticks to the second.
\<close>

definition willing_Host :: Host where
  "willing_Host =
     \<lparr> system_is_valid = True, system_is_running = True, host_is_fullscreen = False,
       create_device_for_api = (\<lambda>api. True), supports_exclusive_fullscreen = False,
       fullscreen_mode_setting = False,
       acquire_render_window = (\<lambda>api fs excl. Some False),
       device_create_ok = (\<lambda>api. True), imgui_initialize_ok = True,
       fullscreen_ui_initialize_ok = True, backend_initialize = (\<lambda>b upload. None),
       render_api_for_renderer = (\<lambda>r. RenderAPI_Some 0),
       is_same_render_api = (\<lambda>a b. a = b), settings_gpu_renderer = Hardware,
       settings_display_show_gpu_usage = False, should_skip_presenting_frame = False,
       present_display_result = OK, begin_present_result = OK,
       feature_explicit_present = False, feature_timed_present = False,
       vsync_mode_blocking = True, timer_current_value = 1000, timer_frequency = 10 \<rparr>"

text \<open>
  The commands pending in the ring, laid end to end from offset \<open>r\<close> to offset \<open>e\<close>: each
  is a backend command (its type is above \<open>Shutdown\<close>) of non-zero size, and the next one
  starts where it ends.
\<close>

fun pending_chain :: "(u32 \<Rightarrow> GPUThreadCommand) \<Rightarrow> u32 \<Rightarrow> GPUThreadCommand list \<Rightarrow> u32 \<Rightarrow> bool" where
  "pending_chain mem r [] e = (r = e)"
| "pending_chain mem r (c # cs) e =
     (mem r = c \<and> type_code (cmd_type c) > type_code Shutdown
      \<and> 0 < unat (cmd_size c) \<and> unat r + unat (cmd_size c) \<le> unat e
      \<and> pending_chain mem (r + cmd_size c) cs e)"






text \<open>
  \<open>PresentFrame\<close> called a number of times in a row with the same arguments, as the spec's
  skip-present scenario does; a fault ends the sequence.
\<close>

fun PresentFrame_times :: "nat \<Rightarrow> Host \<Rightarrow> bool \<Rightarrow> u64 \<Rightarrow> State \<Rightarrow> Fault + State" where
  "PresentFrame_times 0 h allow_skip_present present_time s = Inr s"
| "PresentFrame_times (Suc n) h allow_skip_present present_time s =
     (case PresentFrame h allow_skip_present present_time s of
        Inl f \<Rightarrow> Inl f
      | Inr s' \<Rightarrow> PresentFrame_times n h allow_skip_present present_time s')"

text \<open>The events of a skipped frame: ImGui's frame is ended and a new one begun.\<close>

definition skipped_frame :: "State \<Rightarrow> State" where
  "skipped_frame s =
     end_frame (emit ImGuiEndFrame (s\<lparr>skipped_present_count := skipped_present_count s + 1\<rparr>))"

text \<open>
  What a frame does to its collaborators, written out as event lists to state
  \<open>PresentFrame\<close>'s behaviour against: the overlays of a frame that is not skipped, the
  present that is called (the backend's when there is one, the device's otherwise) and the
  result it returns, the calls after a successful present, and the new ImGui frame that ends
  every call.
\<close>

definition overlay_events :: "Host \<Rightarrow> State \<Rightarrow> Event list" where
  "overlay_events h s =
     [RenderFullscreenUI]
     @ (if gpu_backend s \<noteq> None \<and> system_is_valid h then [RenderTextOverlays] else [])
     @ [RenderOSDMessages]
     @ (if gpu_backend s \<noteq> None \<and> system_is_running h then [RenderSoftwareCursors] else [])
     @ [RenderOverlayWindows, RenderDebugWindows]"

definition present_event :: "State \<Rightarrow> Event" where
  "present_event s = (if gpu_backend s \<noteq> None then PresentDisplay else BeginPresent)"

definition called_present_result :: "Host \<Rightarrow> State \<Rightarrow> PresentResult" where
  "called_present_result h s =
     (if gpu_backend s \<noteq> None then present_display_result h else begin_present_result h)"

definition present_ok_events :: "Host \<Rightarrow> GPUDevice \<Rightarrow> u64 \<Rightarrow> Event list" where
  "present_ok_events h d t =
     [RenderImGui]
     @ (if t \<noteq> 0 \<and> \<not> (feature_explicit_present h \<and> \<not> feature_timed_present h)
        then [FlushCommands, SleepUntilPresentTime t] else [])
     @ [EndPresent (t \<noteq> 0 \<and> feature_explicit_present h \<and> \<not> feature_timed_present h)
                   (if t \<noteq> 0 \<and> feature_timed_present h then t else 0)]
     @ (if gpu_timing_enabled d then [AccumulateGPUTime] else [])
     @ (if t \<noteq> 0 \<and> feature_explicit_present h \<and> \<not> feature_timed_present h
        then [SleepUntilPresentTime t, SubmitPresent] else [])"

definition new_frame_events :: "State \<Rightarrow> Event list" where
  "new_frame_events s =
     ImGuiNewFrame # (if gpu_backend s \<noteq> None then [RestoreDeviceContext] else [])"

text \<open>
  The skip-present scenario: a device with a main swap chain and a software backend, and a
  swap chain that asks to skip every frame.
\<close>

definition present_start :: State where
  "present_start =
     (initial_State zeroed_ring)
       \<lparr>gpu_backend := Some SoftwareBackend,
        g_gpu_device := Some \<lparr>render_api = RenderAPI_Some 0, has_main_swap_chain = True,
                               gpu_timing_enabled = False\<rparr>\<rparr>"

definition skipping_Host :: Host where
  "skipping_Host = willing_Host\<lparr>should_skip_presenting_frame := True\<rparr>"

text \<open>
  A surfaceless device (no main swap chain) with a software backend, whose counter of frames
  without a present already stands at 50.
\<close>

definition surfaceless_start :: State where
  "surfaceless_start =
     (initial_State zeroed_ring)
       \<lparr>gpu_backend := Some SoftwareBackend,
        skipped_present_count := 50,
        g_gpu_device := Some \<lparr>render_api = RenderAPI_Some 0, has_main_swap_chain = False,
                               gpu_timing_enabled = False\<rparr>\<rparr>"

text \<open>The backend that \<open>CreateGPUBackendOnThread\<close> constructs first for a renderer.\<close>

definition backend_for :: "GPURenderer \<Rightarrow> GPUBackend" where
  "backend_for r = (if r \<noteq> Software then HardwareBackend else SoftwareBackend)"

text \<open>
  Fixtures for the error paths: hosts whose hardware backend, or every backend, fails to
  initialize; a state in which the hardware renderer was requested on a live device; and a
  host whose timer stands 100 ticks (10 s) after that of \<open>willing_Host\<close>.
\<close>

definition hardware_failing_Host :: Host where
  "hardware_failing_Host =
     willing_Host\<lparr>backend_initialize :=
       (\<lambda>b upload. if b = HardwareBackend then Some ''no hardware'' else None)\<rparr>"

definition all_failing_Host :: Host where
  "all_failing_Host = willing_Host\<lparr>backend_initialize := (\<lambda>b upload. Some ''no backend'')\<rparr>"

definition hardware_requested :: State where
  "hardware_requested = present_start\<lparr>requested_renderer := Some Hardware, gpu_backend := None\<rparr>"

definition software_running :: State where
  "software_running = present_start\<lparr>requested_renderer := Some Software\<rparr>"

definition later_Host :: Host where
  "later_Host = willing_Host\<lparr>timer_current_value := 1100\<rparr>"

text \<open>
  Fixtures for the fullscreen UI: sizes for the three command structs, a state in which a
  system is running with the fullscreen UI requested, a state in which only the fullscreen
  UI runs (no backend), and a host with no valid system.
\<close>

definition some_Sizes :: Sizes where
  "some_Sizes = \<lparr>sizeof_GPUBackendCommand = 12, sizeof_GPUThreadAsyncCallCommand = 48,
                  sizeof_GPUThreadReconfigureCommand = 64\<rparr>"

definition fsui_with_system :: State where
  "fsui_with_system =
     present_start\<lparr>requested_renderer := Some Software, requested_fullscreen_ui := True,
                    imgui_initialized := True, fullscreen_ui_initialized := True\<rparr>"

definition fsui_only :: State where
  "fsui_only =
     present_start\<lparr>gpu_backend := None, requested_fullscreen_ui := True,
                    imgui_initialized := True, fullscreen_ui_initialized := True\<rparr>"

definition no_system_Host :: Host where
  "no_system_Host = willing_Host\<lparr>system_is_valid := False, system_is_running := False\<rparr>"

section \<open>The software backend's display readout (gpu_sw.cpp)\<close>

text \<open>
  Modelled from the spec: gpu_types.h, which declares \<open>VRAM_WIDTH\<close>, \<open>VRAM_HEIGHT\<close> and
  \<open>g_vram\<close>, is not among the sources. The spec's VRAM is a contiguous 1024 x 512 array of
  16-bit pixels. A read outside the array is undefined in C++; here it is a fault that names
  the index.
\<close>

definition VRAM_WIDTH :: u32 where
  "VRAM_WIDTH = 1024"

definition VRAM_HEIGHT :: u32 where
  "VRAM_HEIGHT = 512"

type_synonym VRAM = "nat \<Rightarrow> u16"

datatype VRAMFault = OutOfBounds nat

definition vram_at :: "VRAM \<Rightarrow> nat \<Rightarrow> VRAMFault + u16" where
  "vram_at g_vram i =
     (if i < unat VRAM_WIDTH * unat VRAM_HEIGHT then Inr (g_vram i) else Inl (OutOfBounds i))"

text \<open>
  The bytes of VRAM, as the 24-bit fast path reads them through a \<open>const u8*\<close>: byte \<open>b\<close> is
  the low half of pixel \<open>b div 2\<close> when \<open>b\<close> is even and the high half when it is odd (the
  hosts are little-endian).
\<close>

definition vram_byte_at :: "VRAM \<Rightarrow> nat \<Rightarrow> VRAMFault + u8" where
  "vram_byte_at g_vram b =
     (case vram_at g_vram (b div 2) of
        Inl f \<Rightarrow> Inl f
      | Inr v \<Rightarrow> Inr (if even b then ucast v else ucast (drop_bit 8 v)))"

text \<open>The first fault of a sequence of reads, or all their results.\<close>

fun collect :: "('e + 'a) list \<Rightarrow> 'e + 'a list" where
  "collect [] = Inr []"
| "collect (x # xs) =
     (case x of
        Inl e \<Rightarrow> Inl e
      | Inr v \<Rightarrow> (case collect xs of Inl e \<Rightarrow> Inl e | Inr vs \<Rightarrow> Inr (v # vs)))"

text \<open>
  The four \<open>GPUTexture::Format\<close> values the readout is instantiated for, and an output pixel:
  \<open>OutputPixelType\<close> is \<open>u32\<close> for \<open>RGBA8\<close> and \<open>BGRA8\<close> and \<open>u16\<close> for the other two.
\<close>

datatype Format = RGBA5551 | RGB565 | RGBA8 | BGRA8

datatype Pixel = Pixel16 u16 | Pixel32 u32

subsection \<open>15-bit readout\<close>

text \<open>
  \<open>VRAM16ToOutput\<close>, one equation for each specialization. The 16-bit results are computed
  in \<open>int\<close> and fit 16 bits; the alpha of \<open>RGBA8\<close> tests bit 15.
\<close>

fun VRAM16ToOutput :: "Format \<Rightarrow> u16 \<Rightarrow> Pixel" where
  "VRAM16ToOutput RGBA5551 v =
     Pixel16 ((v AND 0x3E0) OR (drop_bit 10 v AND 0x1F) OR push_bit 10 (v AND 0x1F))"
| "VRAM16ToOutput RGB565 v =
     Pixel16 (push_bit 1 (v AND 0x3E0) OR push_bit 1 (v AND 0x20) OR (drop_bit 10 v AND 0x1F)
              OR push_bit 11 (v AND 0x1F))"
| "VRAM16ToOutput RGBA8 v =
     (let value32 = (ucast v :: u32);
          r = push_bit 3 (value32 AND 31);
          g = push_bit 3 (drop_bit 5 value32 AND 31);
          b = push_bit 3 (drop_bit 10 value32 AND 31);
          a = (if drop_bit 15 v \<noteq> 0 then 255 else 0)
      in Pixel32 (r OR push_bit 8 g OR push_bit 16 b OR push_bit 24 a))"
| "VRAM16ToOutput BGRA8 v =
     (let value32 = (ucast v :: u32);
          r = push_bit 3 (value32 AND 31);
          g = push_bit 3 (drop_bit 5 value32 AND 31);
          b = push_bit 3 (drop_bit 10 value32 AND 31)
      in Pixel32 (b OR push_bit 8 g OR push_bit 16 r OR 0xFF000000))"

text \<open>
  One lane of the vector loops of \<open>CopyOutRow16\<close> for \<open>RGBA5551\<close> and \<open>RGB565\<close>, which convert
  eight pixels at a time with 16-bit lane shifts.
\<close>

fun vector_lane :: "Format \<Rightarrow> u16 \<Rightarrow> Pixel" where
  "vector_lane RGBA5551 v =
     Pixel16 (((v AND 0x3E0) OR (drop_bit 10 v AND 0x1F)) OR push_bit 10 (v AND 0x1F))"
| "vector_lane RGB565 v =
     Pixel16 (((push_bit 1 (v AND 0x3E0) OR push_bit 1 (v AND 0x20)) OR (drop_bit 10 v AND 0x1F))
              OR push_bit 11 (v AND 0x1F))"
| "vector_lane f v = VRAM16ToOutput f v"

text \<open>
  \<open>CopyOutRow16\<close>: \<open>width\<close> pixels from \<open>src_ptr\<close> on, in order. For the 16-bit formats the
  columns below \<open>AlignDownPow2(width, 8)\<close> go through the vector loop, which loads eight
  consecutive pixels, and the rest through \<open>VRAM16ToOutput\<close>; the 32-bit formats have the
  scalar loop only.
\<close>

definition CopyOutRow16 :: "Format \<Rightarrow> VRAM \<Rightarrow> nat \<Rightarrow> nat \<Rightarrow> VRAMFault + Pixel list" where
  "CopyOutRow16 f g_vram src_ptr width =
     (let aligned_width = (if f = RGBA5551 \<or> f = RGB565 then (width div 8) * 8 else 0)
      in collect
           (map (\<lambda>col. case vram_at g_vram (src_ptr + col) of
                          Inl e \<Rightarrow> Inl e
                        | Inr v \<Rightarrow> Inr (if col < aligned_width then vector_lane f v
                                         else VRAM16ToOutput f v))
              [0..<width]))"

text \<open>
  \<open>CopyOut15Bit\<close>. \<open>texture\<close> says whether \<open>GetDisplayTexture\<close> returned a texture; without one
  the function returns \<open>false\<close>, here \<open>None\<close>. The result is the rows written to the upload
  buffer. The sums and products of the \<open>u32\<close> arguments wrap; the row pointer is advanced as a
  pointer and does not.
\<close>

definition CopyOut15Bit ::
    "Format \<Rightarrow> bool \<Rightarrow> VRAM \<Rightarrow> u32 \<Rightarrow> u32 \<Rightarrow> u32 \<Rightarrow> u32 \<Rightarrow> u32
       \<Rightarrow> VRAMFault + Pixel list list option" where
  "CopyOut15Bit f texture g_vram src_x src_y width height line_skip =
     (if \<not> texture then Inr None
      else if src_x + width \<le> VRAM_WIDTH \<and> src_y + height \<le> VRAM_HEIGHT then
        (let src_ptr = unat (src_y * VRAM_WIDTH + src_x);
             src_step = unat (push_bit (unat line_skip) VRAM_WIDTH)
         in map_sum id Some
              (collect (map (\<lambda>row. CopyOutRow16 f g_vram (src_ptr + row * src_step) (unat width))
                          [0..<unat height])))
      else
        (let end_x = src_x + width;
             y_step = (push_bit (unat line_skip) 1 :: u32)
         in map_sum id Some
              (collect
                 (map (\<lambda>row.
                         collect
                           (map (\<lambda>col.
                                   map_sum id (VRAM16ToOutput f)
                                     (vram_at g_vram
                                        (unat ((src_y + of_nat row * y_step) mod VRAM_HEIGHT)
                                           * unat VRAM_WIDTH
                                         + unat ((src_x + of_nat col) mod VRAM_WIDTH))))
                              [0..<unat end_x - unat src_x]))
                    [0..<unat height]))))"

subsection \<open>24-bit readout\<close>

text \<open>
  The conversion of the fast path of \<open>CopyOut24Bit\<close>, from the three bytes of a packed
  sample. The 32-bit formats are written byte by byte, so the pixel is the little-endian
  word of the four bytes.
\<close>

fun fast_convert24 :: "Format \<Rightarrow> u8 \<Rightarrow> u8 \<Rightarrow> u8 \<Rightarrow> Pixel" where
  "fast_convert24 RGBA8 b0 b1 b2 =
     Pixel32 (ucast b0 OR push_bit 8 (ucast b1) OR push_bit 16 (ucast b2) OR push_bit 24 0xFF)"
| "fast_convert24 BGRA8 b0 b1 b2 =
     Pixel32 (ucast b2 OR push_bit 8 (ucast b1) OR push_bit 16 (ucast b0) OR push_bit 24 0xFF)"
| "fast_convert24 RGB565 b0 b1 b2 =
     Pixel16 (push_bit 11 (drop_bit 3 (ucast b0 :: u16)) OR push_bit 5 (drop_bit 2 (ucast b1 :: u16))
              OR drop_bit 3 (ucast b2 :: u16))"
| "fast_convert24 RGBA5551 b0 b1 b2 =
     Pixel16 (push_bit 10 (drop_bit 3 (ucast b0 :: u16)) OR push_bit 5 (drop_bit 3 (ucast b1 :: u16))
              OR drop_bit 3 (ucast b2 :: u16))"

text \<open>
  The conversion of the wrapping path, from the 32-bit \<open>rgb\<close>; for the 16-bit formats the
  \<open>u32\<close> expression is stored through a \<open>u16*\<close>, which keeps its low 16 bits.
\<close>

fun slow_convert24 :: "Format \<Rightarrow> u32 \<Rightarrow> Pixel" where
  "slow_convert24 RGBA8 rgb = Pixel32 (rgb OR 0xFF000000)"
| "slow_convert24 BGRA8 rgb =
     Pixel32 ((rgb AND 0x00FF00) OR push_bit 16 (rgb AND 0xFF) OR (drop_bit 16 rgb AND 0xFF)
              OR 0xFF000000)"
| "slow_convert24 RGB565 rgb =
     Pixel16 (ucast ((drop_bit 3 rgb AND 0x1F) OR (push_bit 5 (drop_bit 10 rgb) AND 0x7E0)
                     OR (push_bit 11 (drop_bit 19 rgb) AND 0x3E0000)))"
| "slow_convert24 RGBA5551 rgb =
     Pixel16 (ucast ((drop_bit 3 rgb AND 0x1F) OR (push_bit 5 (drop_bit 11 rgb) AND 0x3E0)
                     OR (push_bit 10 (drop_bit 19 rgb) AND 0x1F0000)))"

text \<open>One pixel of the wrapping path: row \<open>y\<close> (already reduced), column \<open>col\<close>.\<close>

definition slow_pixel24 :: "Format \<Rightarrow> VRAM \<Rightarrow> u32 \<Rightarrow> u32 \<Rightarrow> u32 \<Rightarrow> u32 \<Rightarrow> VRAMFault + Pixel" where
  "slow_pixel24 f g_vram y src_x skip_x col =
     (let row = unat y * unat VRAM_WIDTH;
          offset = src_x + ((skip_x + col) * 3) div 2
      in case vram_at g_vram (row + unat (offset mod VRAM_WIDTH)) of
           Inl e \<Rightarrow> Inl e
         | Inr s0 \<Rightarrow>
             (case vram_at g_vram (row + unat ((offset + 1) mod VRAM_WIDTH)) of
                Inl e \<Rightarrow> Inl e
              | Inr s1 \<Rightarrow>
                  let shift = unat ((ucast (col AND 1) :: u8) * 8);
                      rgb = drop_bit shift (push_bit 16 (ucast s1 :: u32) OR (ucast s0 :: u32))
                  in Inr (slow_convert24 f rgb)))"

text \<open>One pixel of the fast path: the three bytes at \<open>p\<close>.\<close>

definition fast_pixel24 :: "Format \<Rightarrow> VRAM \<Rightarrow> nat \<Rightarrow> VRAMFault + Pixel" where
  "fast_pixel24 f g_vram p =
     (case vram_byte_at g_vram p of
        Inl e \<Rightarrow> Inl e
      | Inr b0 \<Rightarrow>
          (case vram_byte_at g_vram (p + 1) of
             Inl e \<Rightarrow> Inl e
           | Inr b1 \<Rightarrow>
               (case vram_byte_at g_vram (p + 2) of
                  Inl e \<Rightarrow> Inl e
                | Inr b2 \<Rightarrow> Inr (fast_convert24 f b0 b1 b2))))"

text \<open>
  \<open>CopyOut24Bit\<close>: the fast path walks a byte pointer from the start pixel plus
  \<open>skip_x * 3\<close> bytes, with a row stride of \<open>(VRAM_WIDTH << line_skip) * sizeof(u16)\<close> bytes; the
  other path wraps each coordinate.
\<close>

definition CopyOut24Bit ::
    "Format \<Rightarrow> bool \<Rightarrow> VRAM \<Rightarrow> u32 \<Rightarrow> u32 \<Rightarrow> u32 \<Rightarrow> u32 \<Rightarrow> u32 \<Rightarrow> u32
       \<Rightarrow> VRAMFault + Pixel list list option" where
  "CopyOut24Bit f texture g_vram src_x src_y skip_x width height line_skip =
     (if \<not> texture then Inr None
      else if src_x + width \<le> VRAM_WIDTH
              \<and> src_y + push_bit (unat line_skip) height \<le> VRAM_HEIGHT then
        (let src_ptr = 2 * unat (src_y * VRAM_WIDTH + src_x) + unat (skip_x * 3);
             src_stride = unat (push_bit (unat line_skip) VRAM_WIDTH) * 2
         in map_sum id Some
              (collect
                 (map (\<lambda>row.
                         collect (map (\<lambda>col. fast_pixel24 f g_vram (src_ptr + row * src_stride + 3 * col))
                                    [0..<unat width]))
                    [0..<unat height])))
      else
        (let y_step = (push_bit (unat line_skip) 1 :: u32)
         in map_sum id Some
              (collect
                 (map (\<lambda>row.
                         collect
                           (map (\<lambda>col. slow_pixel24 f g_vram
                                         ((src_y + of_nat row * y_step) mod VRAM_HEIGHT)
                                         src_x skip_x (of_nat col))
                              [0..<unat width]))
                    [0..<unat height]))))"

text \<open>
  The naive reference of the spec, in its words: each pixel is the packed 24-bit triple at
  byte offset \<open>src_x * 2 + (skip_x + col) * 3\<close> of its row, every byte offset taken modulo the
  row stride of \<open>VRAM_WIDTH * 2\<close> bytes and every row modulo \<open>VRAM_HEIGHT\<close>, converted as the
  fast path converts it.
\<close>

definition row_byte :: "VRAM \<Rightarrow> nat \<Rightarrow> nat \<Rightarrow> u8" where
  "row_byte g_vram y b =
     (let v = g_vram (y * 1024 + (b mod 2048) div 2)
      in if even b then ucast v else ucast (drop_bit 8 v))"

definition naive_pixel24 :: "Format \<Rightarrow> VRAM \<Rightarrow> nat \<Rightarrow> nat \<Rightarrow> nat \<Rightarrow> nat \<Rightarrow> Pixel" where
  "naive_pixel24 f g_vram y src_x skip_x col =
     (let b = src_x * 2 + (skip_x + col) * 3
      in fast_convert24 f (row_byte g_vram y b) (row_byte g_vram y (b + 1))
           (row_byte g_vram y (b + 2)))"

definition naive_CopyOut24Bit ::
    "Format \<Rightarrow> VRAM \<Rightarrow> nat \<Rightarrow> nat \<Rightarrow> nat \<Rightarrow> nat \<Rightarrow> nat \<Rightarrow> nat \<Rightarrow> Pixel list list" where
  "naive_CopyOut24Bit f g_vram src_x src_y skip_x width height line_skip =
     map (\<lambda>row. map (\<lambda>col. naive_pixel24 f g_vram ((src_y + row * 2 ^ line_skip) mod 512)
                              src_x skip_x col)
                   [0..<width])
       [0..<height]"

subsection \<open>The display update\<close>

text \<open>
  Modelled from the spec: \<open>GPUBackendUpdateDisplayCommand\<close> is declared in gpu_types.h, which
  is not among the sources; these are the fields \<open>GPU_SW::UpdateDisplay\<close> reads, the
  coordinates as 16-bit values and the field as 0 or 1.
\<close>

record GPUBackendUpdateDisplayCommand =
  display_disabled :: bool
  display_24bit :: bool
  interlaced_display_enabled :: bool
  interlaced_display_field :: u32
  interlaced_display_interleaved :: bool
  display_X :: u16
  display_vram_left :: u16
  display_vram_top :: u16
  display_vram_width :: u16
  display_vram_height :: u16

definition CopyOut ::
    "Format \<Rightarrow> Format \<Rightarrow> bool \<Rightarrow> VRAM \<Rightarrow> u32 \<Rightarrow> u32 \<Rightarrow> u32 \<Rightarrow> u32 \<Rightarrow> u32 \<Rightarrow> u32 \<Rightarrow> bool
       \<Rightarrow> VRAMFault + Pixel list list option" where
  "CopyOut m_16bit_display_format m_24bit_display_format texture g_vram
           src_x src_y skip_x width height line_skip is_24bit =
     (if \<not> is_24bit
      then CopyOut15Bit m_16bit_display_format texture g_vram src_x src_y width height line_skip
      else CopyOut24Bit m_24bit_display_format texture g_vram src_x src_y skip_x width height
             line_skip)"

text \<open>
  The \<open>CopyOut\<close> call of \<open>GPU_SW::UpdateDisplay\<close> and its result (\<open>None\<close> also when the display
  is disabled and nothing is copied). What follows the copy (\<open>SetDisplayTexture\<close>, chroma
  smoothing, deinterlacing) is in the base class, which is not among the sources.
\<close>

definition UpdateDisplay_CopyOut ::
    "bool \<Rightarrow> Format \<Rightarrow> Format \<Rightarrow> bool \<Rightarrow> VRAM \<Rightarrow> GPUBackendUpdateDisplayCommand
       \<Rightarrow> VRAMFault + Pixel list list option" where
  "UpdateDisplay_CopyOut show_vram f16 f24 texture g_vram cmd =
     (if \<not> show_vram then
        if display_disabled cmd then Inr None
        else
          let is_24bit = display_24bit cmd;
              interlaced = interlaced_display_enabled cmd;
              field = interlaced_display_field cmd;
              vram_offset_x = (if is_24bit then ucast (display_X cmd)
                               else ucast (display_vram_left cmd) :: u32);
              vram_offset_y = (ucast (display_vram_top cmd) :: u32)
                              + (if interlaced \<and> interlaced_display_interleaved cmd then field else 0);
              skip_x = (if is_24bit
                        then (ucast (display_vram_left cmd) :: u32) - ucast (display_X cmd) else 0);
              read_width = (ucast (display_vram_width cmd) :: u32);
              read_height = (if interlaced then (ucast (display_vram_height cmd) :: u32) div 2
                             else ucast (display_vram_height cmd))
          in if interlaced_display_enabled cmd
             then CopyOut f16 f24 texture g_vram vram_offset_x vram_offset_y skip_x read_width
                    read_height (if interlaced_display_interleaved cmd then 1 else 0) is_24bit
             else CopyOut f16 f24 texture g_vram vram_offset_x vram_offset_y skip_x read_width
                    read_height 0 is_24bit
      else CopyOut f16 f24 texture g_vram 0 0 0 VRAM_WIDTH VRAM_HEIGHT 0 False)"

subsection \<open>Fixtures for the readout\<close>

text \<open>
  An interlaced, interleaved 15-bit display of four lines that starts two rows above the end
  of VRAM; a VRAM with one red 24-bit sample in the last pixel of row 0; and a VRAM whose
  row 0 starts with the bytes 11 22 33 44.
\<close>

definition interleaved_tail_cmd :: GPUBackendUpdateDisplayCommand where
  "interleaved_tail_cmd =
     \<lparr>display_disabled = False, display_24bit = False,
      interlaced_display_enabled = True, interlaced_display_field = 0,
      interlaced_display_interleaved = True, display_X = 0, display_vram_left = 0,
      display_vram_top = 510, display_vram_width = 1, display_vram_height = 4\<rparr>"

definition vram_red :: VRAM where
  "vram_red = (\<lambda>i. if i = 1023 then 0x00FF else 0)"

definition vram_bytes :: VRAM where
  "vram_bytes = (\<lambda>i. if i = 0 then 0x2211 else if i = 1 then 0x4433 else 0)"

section \<open>Properties of the GPU thread\<close>

subsection \<open>Field lemmas\<close>

lemma GetThreadWakeCount_one: "GetThreadWakeCount 1 = 1"
  by (simp add: GetThreadWakeCount_def THREAD_WAKE_COUNT_CPU_THREAD_IS_WAITING_def)

lemma advance_fields:
  "command_fifo_read_ptr (advance_write_ptr s cmd) = command_fifo_read_ptr s"
  "command_fifo_write_ptr (advance_write_ptr s cmd)
     = command_fifo_write_ptr s + cmd_size (command_fifo_data s cmd)"
  "command_fifo_data (advance_write_ptr s cmd) = command_fifo_data s"
  "thread_wake_count (advance_write_ptr s cmd) = thread_wake_count s"
  "thread_wake_semaphore (advance_write_ptr s cmd) = thread_wake_semaphore s"
  "events (advance_write_ptr s cmd) = events s"
  by (simp_all add: advance_write_ptr_def)

lemma Wake_fields:
  "command_fifo_read_ptr (WakeGPUThread s) = command_fifo_read_ptr s"
  "command_fifo_write_ptr (WakeGPUThread s) = command_fifo_write_ptr s"
  "command_fifo_data (WakeGPUThread s) = command_fifo_data s"
  "events (WakeGPUThread s) = events s"
  by (simp_all add: WakeGPUThread_def)

lemma unat_GetPendingCommandSize:
  assumes "unat (command_fifo_read_ptr s) \<le> unat COMMAND_QUEUE_SIZE"
      and "unat (command_fifo_write_ptr s) \<le> unat COMMAND_QUEUE_SIZE"
  shows "unat (GetPendingCommandSize s) =
           pending_bytes (unat (command_fifo_read_ptr s)) (unat (command_fifo_write_ptr s))"
  using assms
  apply (simp add: GetPendingCommandSize_def COMMAND_QUEUE_SIZE_def word_le_nat_alt pending_bytes_def)
  apply (auto simp: unat_sub word_le_nat_alt unat_word_ariths)
  done

subsection \<open>Waking\<close>

text \<open>
  C7. \<open>WakeGPUThread\<close> adds exactly 2 to the wake counter, and posts the wake semaphore
  exactly when the counter before the add was negative. A consumer that was sleeping
  (counter \<open>-1\<close>) is left with a positive work count: its next acknowledgement in
  \<open>SleepGPUThread\<close> returns \<open>true\<close> instead of going back to sleep. (The memory order of the
  \<open>fetch_add\<close> is outside this model.)
\<close>

theorem WakeGPUThread_adds_two_posts_if_negative:
  "thread_wake_count (WakeGPUThread s) = thread_wake_count s + 2
   \<and> thread_wake_semaphore (WakeGPUThread s)
       = thread_wake_semaphore s + (if sint (thread_wake_count s) < 0 then 1 else 0)
   \<and> (thread_wake_count s = THREAD_WAKE_COUNT_SLEEPING \<longrightarrow>
         sint (GetThreadWakeCount (thread_wake_count (WakeGPUThread s))) > 0
         \<and> (\<exists>s'. SleepGPUThread a (WakeGPUThread s) = Returned True s'))"
proof -
  have "\<exists>s'. SleepGPUThread a (WakeGPUThread s) = Returned True s'"
    if "thread_wake_count s = THREAD_WAKE_COUNT_SLEEPING"
    using that
    by (subst SleepGPUThread.simps)
       (simp add: WakeGPUThread_def THREAD_WAKE_COUNT_SLEEPING_def GetThreadWakeCount_one Let_def)
  then show ?thesis
    by (auto simp: WakeGPUThread_def THREAD_WAKE_COUNT_SLEEPING_def GetThreadWakeCount_one)
qed

theorem WakeGPUThread_sleeping_witness:
  "thread_wake_count ((initial_State zeroed_ring)\<lparr>thread_wake_count := - 1\<rparr>)
     = THREAD_WAKE_COUNT_SLEEPING
   \<and> thread_wake_count (WakeGPUThread ((initial_State zeroed_ring)\<lparr>thread_wake_count := - 1\<rparr>)) = 1
   \<and> thread_wake_semaphore
        (WakeGPUThread ((initial_State zeroed_ring)\<lparr>thread_wake_count := - 1\<rparr>)) = 1
   \<and> sint (GetThreadWakeCount
        (thread_wake_count (WakeGPUThread ((initial_State zeroed_ring)\<lparr>thread_wake_count := - 1\<rparr>))))
       > 0"
proof -
  let ?s = "(initial_State zeroed_ring)\<lparr>thread_wake_count := - 1\<rparr>"
  have h: "thread_wake_count ?s = THREAD_WAKE_COUNT_SLEEPING"
    by (simp add: THREAD_WAKE_COUNT_SLEEPING_def)
  have neg: "sint (thread_wake_count ?s) < 0"
    by simp
  from WakeGPUThread_adds_two_posts_if_negative [of ?s True] h
  have "thread_wake_count (WakeGPUThread ?s) = thread_wake_count ?s + 2"
    and "thread_wake_semaphore (WakeGPUThread ?s)
           = thread_wake_semaphore ?s + (if sint (thread_wake_count ?s) < 0 then 1 else 0)"
    and "sint (GetThreadWakeCount (thread_wake_count (WakeGPUThread ?s))) > 0"
    by blast+
  with neg show ?thesis
    by (simp add: initial_State_def THREAD_WAKE_COUNT_SLEEPING_def)
qed

subsection \<open>Publishing\<close>

text \<open>
  C8. \<open>PushCommand\<close> advances the write pointer by the slot's size and leaves the read
  pointer alone. In a ring whose pointers respect the capacity, it wakes the GPU thread
  (adds 2 to the wake counter, and posts the semaphore of a parked consumer) exactly when
  the pending byte count from \<open>read\<close> to the new \<open>write\<close> is at least 65536, and otherwise
  only publishes. (The memory order of the \<open>fetch_add\<close> is outside this model.)
\<close>

theorem PushCommand_wakes_at_threshold:
  assumes r: "unat (command_fifo_read_ptr s) \<le> unat COMMAND_QUEUE_SIZE"
      and w: "unat (command_fifo_write_ptr s) + unat (cmd_size (command_fifo_data s cmd))
                \<le> unat COMMAND_QUEUE_SIZE"
  shows "command_fifo_write_ptr (PushCommand s cmd)
           = command_fifo_write_ptr s + cmd_size (command_fifo_data s cmd)
         \<and> unat (command_fifo_write_ptr (PushCommand s cmd))
           = unat (command_fifo_write_ptr s) + unat (cmd_size (command_fifo_data s cmd))
         \<and> command_fifo_read_ptr (PushCommand s cmd) = command_fifo_read_ptr s
         \<and> PushCommand s cmd =
             (if 65536 \<le> pending_bytes (unat (command_fifo_read_ptr s))
                            (unat (command_fifo_write_ptr s) + unat (cmd_size (command_fifo_data s cmd)))
              then WakeGPUThread (advance_write_ptr s cmd)
              else advance_write_ptr s cmd)
         \<and> thread_wake_count (PushCommand s cmd) =
             (if 65536 \<le> pending_bytes (unat (command_fifo_read_ptr s))
                            (unat (command_fifo_write_ptr s) + unat (cmd_size (command_fifo_data s cmd)))
              then thread_wake_count s + 2 else thread_wake_count s)
         \<and> thread_wake_semaphore (PushCommand s cmd) =
             (if 65536 \<le> pending_bytes (unat (command_fifo_read_ptr s))
                            (unat (command_fifo_write_ptr s) + unat (cmd_size (command_fifo_data s cmd)))
                 \<and> sint (thread_wake_count s) < 0
              then thread_wake_semaphore s + 1 else thread_wake_semaphore s)"
proof -
  let ?s' = "advance_write_ptr s cmd"
  let ?n = "unat (command_fifo_write_ptr s) + unat (cmd_size (command_fifo_data s cmd))"
  have cap: "unat COMMAND_QUEUE_SIZE = 16777216"
    by (simp add: COMMAND_QUEUE_SIZE_def)
  have wn: "unat (command_fifo_write_ptr ?s') = ?n"
    using w by (simp add: advance_fields unat_word_ariths cap)
  have pend: "unat (GetPendingCommandSize ?s') = pending_bytes (unat (command_fifo_read_ptr s)) ?n"
    using unat_GetPendingCommandSize [of ?s'] r w wn
    by (simp add: advance_fields)
  have thr: "(GetPendingCommandSize ?s' \<ge> THRESHOLD_TO_WAKE_GPU)
               = (65536 \<le> pending_bytes (unat (command_fifo_read_ptr s)) ?n)"
    by (simp add: word_le_nat_alt pend THRESHOLD_TO_WAKE_GPU_def)
  show ?thesis
    using wn by (simp add: PushCommand_def thr Wake_fields advance_fields WakeGPUThread_def)
qed


theorem PushCommand_threshold_witness:
  "unat (command_fifo_write_ptr
     (PushCommand
        (initial_State (zeroed_ring(0 := \<lparr>cmd_type = DrawLine, cmd_size = 65536, cmd_params = 0,
                                          cmd_payload = NoPayload\<rparr>))) 0)) = 65536
   \<and> thread_wake_count
     (PushCommand
        (initial_State (zeroed_ring(0 := \<lparr>cmd_type = DrawLine, cmd_size = 65536, cmd_params = 0,
                                          cmd_payload = NoPayload\<rparr>))) 0) = 2
   \<and> thread_wake_count
     (PushCommand
        (initial_State (zeroed_ring(0 := \<lparr>cmd_type = DrawLine, cmd_size = 65532, cmd_params = 0,
                                          cmd_payload = NoPayload\<rparr>))) 0) = 0"
proof -
  let ?a = "initial_State (zeroed_ring(0 := \<lparr>cmd_type = DrawLine, cmd_size = 65536, cmd_params = 0,
                                          cmd_payload = NoPayload\<rparr>))"
  let ?b = "initial_State (zeroed_ring(0 := \<lparr>cmd_type = DrawLine, cmd_size = 65532, cmd_params = 0,
                                          cmd_payload = NoPayload\<rparr>))"
  have a: "unat (command_fifo_read_ptr ?a) \<le> unat COMMAND_QUEUE_SIZE"
          "unat (command_fifo_write_ptr ?a) + unat (cmd_size (command_fifo_data ?a 0))
             \<le> unat COMMAND_QUEUE_SIZE"
    by (simp_all add: initial_State_def COMMAND_QUEUE_SIZE_def)
  have b: "unat (command_fifo_read_ptr ?b) \<le> unat COMMAND_QUEUE_SIZE"
          "unat (command_fifo_write_ptr ?b) + unat (cmd_size (command_fifo_data ?b 0))
             \<le> unat COMMAND_QUEUE_SIZE"
    by (simp_all add: initial_State_def COMMAND_QUEUE_SIZE_def)
  note A = PushCommand_wakes_at_threshold [OF a]
  note B = PushCommand_wakes_at_threshold [OF b]
  have "unat (command_fifo_write_ptr (PushCommand ?a 0)) = 65536"
    using A [THEN conjunct2, THEN conjunct1] by (simp add: initial_State_def)
  moreover have "thread_wake_count (PushCommand ?a 0) = 2"
    unfolding A [THEN conjunct2, THEN conjunct2, THEN conjunct2, THEN conjunct2, THEN conjunct1]
    by (simp add: initial_State_def pending_bytes_def)
  moreover have "thread_wake_count (PushCommand ?b 0) = 0"
    unfolding B [THEN conjunct2, THEN conjunct2, THEN conjunct2, THEN conjunct2, THEN conjunct1]
    by (simp add: initial_State_def pending_bytes_def)
  ultimately show ?thesis
    by blast
qed

subsection \<open>Allocating\<close>

lemma cap_unat: "unat COMMAND_QUEUE_SIZE = 16777216"
  by (simp add: COMMAND_QUEUE_SIZE_def)

lemma wraparound_fields:
  "command_fifo_write_ptr (write_wraparound s w a) = 0"
  "command_fifo_read_ptr (write_wraparound s w a) = command_fifo_read_ptr s"
  "cmd_type (command_fifo_data (write_wraparound s w a) w) = Wraparound"
  "cmd_size (command_fifo_data (write_wraparound s w a) w) = a"
  "events (write_wraparound s w a) = events s"
  by (simp_all add: write_wraparound_def)

lemma AllocateCommand_loop_fits:
  assumes "command_fifo_read_ptr s \<le> command_fifo_write_ptr s"
      and "unat sz + hdr \<le> unat (COMMAND_QUEUE_SIZE - command_fifo_write_ptr s)"
  shows "AllocateCommand_loop hdr s c sz
           = Some (write_command_header s (command_fifo_write_ptr s) c sz, command_fifo_write_ptr s)"
  using assms leD [OF assms(1)] by (subst AllocateCommand_loop.simps) simp

lemma AllocateCommand_loop_wraps:
  assumes "command_fifo_read_ptr s \<le> command_fifo_write_ptr s"
      and "unat sz + hdr > unat (COMMAND_QUEUE_SIZE - command_fifo_write_ptr s)"
  shows "AllocateCommand_loop hdr s c sz
           = AllocateCommand_loop hdr
               (write_wraparound s (command_fifo_write_ptr s)
                  (COMMAND_QUEUE_SIZE - command_fifo_write_ptr s)) c sz"
  using assms leD [OF assms(1)] by (subst AllocateCommand_loop.simps) simp

lemma AllocateCommand_loop_ahead:
  assumes "command_fifo_read_ptr s > command_fifo_write_ptr s"
      and "unat sz + 1 \<le> unat (command_fifo_read_ptr s - command_fifo_write_ptr s)"
  shows "AllocateCommand_loop hdr s c sz
           = Some (write_command_header s (command_fifo_write_ptr s) c sz, command_fifo_write_ptr s)"
  using assms
  by (subst AllocateCommand_loop.simps, subst AllocateCommand_wait.simps)
     (simp add: sizeof_GPUBackendCommandType_def)

text \<open>
  C1, amended. With \<open>read \<le> write < CAPACITY\<close> and a size that is a multiple of 4,
  \<open>AllocateCommand\<close> keeps room for a later \<open>Wraparound\<close> header behind every slot: the slot
  is placed at the write offset, with no \<open>Wraparound\<close> slot, when
  \<open>size + sizeof(GPUBackendCommand) \<le> CAPACITY - write\<close>. When
  \<open>size + sizeof(GPUBackendCommand) > CAPACITY - write\<close>, and so for a size of exactly
  \<open>CAPACITY - write\<close>, the producer first writes a \<open>Wraparound\<close> slot of size
  \<open>CAPACITY - write\<close> at \<open>write\<close> and resets \<open>write\<close> to 0; the command is then placed at
  offset 0 when \<open>read = 0\<close> and \<open>size + sizeof(GPUBackendCommand) \<le> CAPACITY\<close>, or when
  \<open>read > 0\<close> and \<open>size + 1 \<le> read\<close>.
\<close>

theorem AllocateCommand_fits_or_wraps:
  assumes rw: "command_fifo_read_ptr s \<le> command_fifo_write_ptr s"
      and wc: "command_fifo_write_ptr s < COMMAND_QUEUE_SIZE"
      and al: "AlignUpPow2 sz 4 = sz"
  shows "(unat sz + hdr \<le> unat COMMAND_QUEUE_SIZE - unat (command_fifo_write_ptr s) \<longrightarrow>
            AllocateCommand hdr s c sz
              = Some (write_command_header s (command_fifo_write_ptr s) c sz, command_fifo_write_ptr s))
       \<and> (unat sz + hdr > unat COMMAND_QUEUE_SIZE - unat (command_fifo_write_ptr s)
            \<and> (command_fifo_read_ptr s = 0 \<and> unat sz + hdr \<le> unat COMMAND_QUEUE_SIZE
                \<or> command_fifo_read_ptr s \<noteq> 0 \<and> unat sz + 1 \<le> unat (command_fifo_read_ptr s)) \<longrightarrow>
            AllocateCommand hdr s c sz
              = Some (write_command_header
                        (write_wraparound s (command_fifo_write_ptr s)
                           (COMMAND_QUEUE_SIZE - command_fifo_write_ptr s)) 0 c sz, 0))
       \<and> (unat sz + hdr > unat COMMAND_QUEUE_SIZE - unat (command_fifo_write_ptr s)
            \<or> 0 < hdr \<and> sz = COMMAND_QUEUE_SIZE - command_fifo_write_ptr s \<longrightarrow>
            AllocateCommand hdr s c sz
              = AllocateCommand_loop hdr
                  (write_wraparound s (command_fifo_write_ptr s)
                     (COMMAND_QUEUE_SIZE - command_fifo_write_ptr s)) c sz)"
proof -
  let ?w = "command_fifo_write_ptr s"
  let ?s' = "write_wraparound s ?w (COMMAND_QUEUE_SIZE - ?w)"
  have tail: "unat (COMMAND_QUEUE_SIZE - ?w) = unat COMMAND_QUEUE_SIZE - unat ?w"
    using wc by (simp add: unat_sub less_imp_le)
  have fits: "AllocateCommand hdr s c sz = Some (write_command_header s ?w c sz, ?w)"
    if "unat sz + hdr \<le> unat COMMAND_QUEUE_SIZE - unat ?w"
    using that rw by (simp add: AllocateCommand_def al AllocateCommand_loop_fits tail)
  have wrap0: "AllocateCommand hdr s c sz = Some (write_command_header ?s' 0 c sz, 0)"
    if big: "unat sz + hdr > unat COMMAND_QUEUE_SIZE - unat ?w"
      and r0: "command_fifo_read_ptr s = 0" and cap: "unat sz + hdr \<le> unat COMMAND_QUEUE_SIZE"
  proof -
    have "AllocateCommand hdr s c sz = AllocateCommand_loop hdr ?s' c sz"
      using big rw by (simp add: AllocateCommand_def al AllocateCommand_loop_wraps tail)
    also have "\<dots> = Some (write_command_header ?s' (command_fifo_write_ptr ?s') c sz,
                           command_fifo_write_ptr ?s')"
      using r0 cap by (intro AllocateCommand_loop_fits) (simp_all add: wraparound_fields)
    finally show ?thesis by (simp add: wraparound_fields)
  qed
  have wrap1: "AllocateCommand hdr s c sz = Some (write_command_header ?s' 0 c sz, 0)"
    if big: "unat sz + hdr > unat COMMAND_QUEUE_SIZE - unat ?w"
      and r0: "command_fifo_read_ptr s \<noteq> 0" and room: "unat sz + 1 \<le> unat (command_fifo_read_ptr s)"
  proof -
    have "AllocateCommand hdr s c sz = AllocateCommand_loop hdr ?s' c sz"
      using big rw by (simp add: AllocateCommand_def al AllocateCommand_loop_wraps tail)
    also have "\<dots> = Some (write_command_header ?s' (command_fifo_write_ptr ?s') c sz,
                           command_fifo_write_ptr ?s')"
      using r0 room by (intro AllocateCommand_loop_ahead) (simp_all add: wraparound_fields word_greater_zero_iff)
    finally show ?thesis by (simp add: wraparound_fields)
  qed
  have exact: "AllocateCommand hdr s c sz = AllocateCommand_loop hdr ?s' c sz"
    if "unat sz + hdr > unat COMMAND_QUEUE_SIZE - unat ?w"
    using that rw by (simp add: AllocateCommand_def al AllocateCommand_loop_wraps tail)
  have "unat sz + hdr > unat COMMAND_QUEUE_SIZE - unat ?w"
    if "0 < hdr" "sz = COMMAND_QUEUE_SIZE - ?w"
    using that tail by simp
  then show ?thesis using fits wrap0 wrap1 exact by blast
qed

text \<open>
  C1 as stated fails: with 100 bytes left in the tail and nothing pending, a slot of size
  exactly 100 is not placed at the write offset. A \<open>Wraparound\<close> slot of size 100 goes there
  and the command goes to offset 0. (Here \<open>sizeof(GPUBackendCommand)\<close> is 12, the spec's
  header; any positive size gives the same.)
\<close>

theorem AllocateCommand_exact_tail_counterexample:
  "(case AllocateCommand 12
           ((initial_State zeroed_ring)\<lparr>command_fifo_write_ptr := COMMAND_QUEUE_SIZE - 100\<rparr>)
           DrawLine 100 of
      None \<Rightarrow> False
    | Some (s', p) \<Rightarrow>
        p = 0 \<and> p \<noteq> COMMAND_QUEUE_SIZE - 100
        \<and> cmd_type (command_fifo_data s' (COMMAND_QUEUE_SIZE - 100)) = Wraparound
        \<and> cmd_size (command_fifo_data s' (COMMAND_QUEUE_SIZE - 100)) = 100)"
  apply (simp add: AllocateCommand_def AlignUpPow2_def initial_State_def COMMAND_QUEUE_SIZE_def)
  apply (subst AllocateCommand_loop.simps)
  apply (simp add: COMMAND_QUEUE_SIZE_def write_wraparound_def)
  apply (subst AllocateCommand_loop.simps)
  apply (simp add: COMMAND_QUEUE_SIZE_def write_command_header_def)
  done

theorem AllocateCommand_fits_or_wraps_witness:
  "map_option snd
     (AllocateCommand 12
        ((initial_State zeroed_ring)\<lparr>command_fifo_write_ptr := COMMAND_QUEUE_SIZE - 100\<rparr>)
        DrawLine 88) = Some (COMMAND_QUEUE_SIZE - 100)
   \<and> map_option snd
     (AllocateCommand 12
        ((initial_State zeroed_ring)\<lparr>command_fifo_write_ptr := COMMAND_QUEUE_SIZE - 100\<rparr>)
        DrawLine 100) = Some 0"
proof -
  let ?s = "(initial_State zeroed_ring)\<lparr>command_fifo_write_ptr := COMMAND_QUEUE_SIZE - 100\<rparr>"
  have rw: "command_fifo_read_ptr ?s \<le> command_fifo_write_ptr ?s"
    by (simp add: initial_State_def)
  have wc: "command_fifo_write_ptr ?s < COMMAND_QUEUE_SIZE"
    by (simp add: initial_State_def COMMAND_QUEUE_SIZE_def)
  have a88: "AlignUpPow2 88 4 = 88" and a100: "AlignUpPow2 100 4 = 100"
    by (simp_all add: AlignUpPow2_def)
  have w: "unat (command_fifo_write_ptr ?s) = 16777116" "command_fifo_read_ptr ?s = 0"
    by (simp_all add: initial_State_def COMMAND_QUEUE_SIZE_def)
  have "AllocateCommand 12 ?s DrawLine 88
          = Some (write_command_header ?s (command_fifo_write_ptr ?s) DrawLine 88,
                  command_fifo_write_ptr ?s)"
    using AllocateCommand_fits_or_wraps [OF rw wc a88, of 12 DrawLine, THEN conjunct1] w
    by (simp add: cap_unat)
  moreover have "AllocateCommand 12 ?s DrawLine 100
          = Some (write_command_header
                    (write_wraparound ?s (command_fifo_write_ptr ?s)
                       (COMMAND_QUEUE_SIZE - command_fifo_write_ptr ?s)) 0 DrawLine 100, 0)"
    using AllocateCommand_fits_or_wraps [OF rw wc a100, of 12 DrawLine, THEN conjunct2, THEN conjunct1] w
    by (simp add: cap_unat)
  ultimately show ?thesis
    by (simp add: initial_State_def)
qed

subsection \<open>What reaches the backend\<close>

lemma events_emit [simp]: "events (emit e s) = events s @ [e]"
  by (simp add: emit_def)


lemma wraparound_free_cong: "events s' = events s \<Longrightarrow> wraparound_free s' = wraparound_free s"
  by (simp add: wraparound_free_def)

lemma wraparound_free_update [simp]:
  "wraparound_free (s\<lparr>command_fifo_write_ptr := v0\<rparr>) = wraparound_free s"
  "wraparound_free (s\<lparr>render_window_surfaceless := v1\<rparr>) = wraparound_free s"
  "wraparound_free (s\<lparr>requested_renderer := v2\<rparr>) = wraparound_free s"
  "wraparound_free (s\<lparr>command_fifo_data := v3\<rparr>) = wraparound_free s"
  "wraparound_free (s\<lparr>thread_wake_count := v4\<rparr>) = wraparound_free s"
  "wraparound_free (s\<lparr>thread_wake_semaphore := v5\<rparr>) = wraparound_free s"
  "wraparound_free (s\<lparr>thread_is_done_semaphore := v6\<rparr>) = wraparound_free s"
  "wraparound_free (s\<lparr>gpu_backend := v7\<rparr>) = wraparound_free s"
  "wraparound_free (s\<lparr>command_fifo_read_ptr := v8\<rparr>) = wraparound_free s"
  "wraparound_free (s\<lparr>skipped_present_count := v9\<rparr>) = wraparound_free s"
  "wraparound_free (s\<lparr>run_idle_flag := v10\<rparr>) = wraparound_free s"
  "wraparound_free (s\<lparr>requested_vsync := v11\<rparr>) = wraparound_free s"
  "wraparound_free (s\<lparr>requested_allow_present_throttle := v12\<rparr>) = wraparound_free s"
  "wraparound_free (s\<lparr>requested_fullscreen_ui := v13\<rparr>) = wraparound_free s"
  "wraparound_free (s\<lparr>g_gpu_device := v14\<rparr>) = wraparound_free s"
  "wraparound_free (s\<lparr>s_last_gpu_reset_time := v15\<rparr>) = wraparound_free s"
  "wraparound_free (s\<lparr>imgui_initialized := v16\<rparr>) = wraparound_free s"
  "wraparound_free (s\<lparr>fullscreen_ui_initialized := v17\<rparr>) = wraparound_free s"
  by (simp_all add: wraparound_free_def)



















lemma pending_chain_le: "pending_chain mem r cs e \<Longrightarrow> unat r \<le> unat e"
proof (induction cs arbitrary: r)
  case Nil
  then show ?case by simp
next
  case (Cons c cs)
  then show ?case by simp
qed











subsection \<open>Presenting\<close>

lemma max_skipped: "unat MAX_SKIPPED_PRESENT_COUNT = 50"
  by (simp add: MAX_SKIPPED_PRESENT_COUNT_def)

lemma PresentFrame_skipped:
  "g_gpu_device s = Some d \<Longrightarrow> skip_present h d a s \<Longrightarrow> PresentFrame h a t s = Inr (skipped_frame s)"
  by (simp add: PresentFrame_def present_result_def skipped_frame_def Let_def)

lemma ext_CreateDevice:
  "CreateDeviceOnThread h api fs s = (r, s') \<Longrightarrow> \<exists>es. events s' = events s @ es"
  by (auto simp: CreateDeviceOnThread_def device_create_failed_def Let_def
           split: if_splits option.splits)

lemma ext_DestroyDevice: "\<exists>es. events (DestroyDeviceOnThread s) = events s @ es"
  by (auto simp: DestroyDeviceOnThread_def split: option.splits)

lemma ext_DestroyBackend: "\<exists>es. events (DestroyGPUBackendOnThread s) = events s @ es"
  by (auto simp: DestroyGPUBackendOnThread_def split: option.splits)

lemma ext_CreateBackend:
  "CreateGPUBackendOnThread h r u s = Inr (e, s') \<Longrightarrow> \<exists>es. events s' = events s @ es"
  by (auto simp: CreateGPUBackendOnThread_def backend_created_def Let_def
           split: if_splits option.splits)

lemma count_CreateDevice:
  "CreateDeviceOnThread h api fs s = (r, s') \<Longrightarrow> skipped_present_count s' = skipped_present_count s"
  by (auto simp: CreateDeviceOnThread_def device_create_failed_def Let_def emit_def
           split: if_splits option.splits)

lemma count_Destroy:
  "skipped_present_count (DestroyDeviceOnThread s) = skipped_present_count s"
  "skipped_present_count (DestroyGPUBackendOnThread s) = skipped_present_count s"
  by (auto simp: DestroyDeviceOnThread_def DestroyGPUBackendOnThread_def emit_def split: option.splits)

lemma count_CreateBackend:
  "CreateGPUBackendOnThread h r u s = Inr (e, s') \<Longrightarrow> skipped_present_count s' = skipped_present_count s"
  by (auto simp: CreateGPUBackendOnThread_def backend_created_def Let_def emit_def
           split: if_splits option.splits)

lemma DeviceLost_extends:
  assumes "HandleGPUDeviceLost h s = Inr s'"
  shows "(\<exists>es. events s' = events s @ es) \<and> skipped_present_count s' = skipped_present_count s"
proof -
  let ?s1 = "s\<lparr>s_last_gpu_reset_time := timer_current_value h\<rparr>"
  let ?s2 = "DestroyDeviceOnThread (DestroyGPUBackendOnThread ?s1)"
  let ?api = "render_api_for_renderer h
                (case requested_renderer ?s2 of None \<Rightarrow> settings_gpu_renderer h | Some r \<Rightarrow> r)"
  obtain e2 where e2: "events ?s2 = events s @ e2"
    using ext_DestroyDevice [of "DestroyGPUBackendOnThread ?s1"] ext_DestroyBackend [of ?s1]
    by auto
  have c2: "skipped_present_count ?s2 = skipped_present_count s"
    by (simp add: count_Destroy)
  obtain r3 s3 where cd: "CreateDeviceOnThread h ?api (host_is_fullscreen h) ?s2 = (r3, s3)"
    by (cases "CreateDeviceOnThread h ?api (host_is_fullscreen h) ?s2")
  obtain e3 where e3: "events s3 = events ?s2 @ e3"
    using ext_CreateDevice [OF cd] by auto
  have c3: "skipped_present_count s3 = skipped_present_count s"
    using count_CreateDevice [OF cd] c2 by simp
  have r3: "r3 = None"
    using assms cd by (auto simp: HandleGPUDeviceLost_def Let_def split: if_splits option.splits)
  show ?thesis
  proof (cases "requested_renderer s3")
    case None
    then have "s' = emit (AddIconOSDWarning ''HostGPUDeviceLost'') s3"
      using assms cd r3 by (auto simp: HandleGPUDeviceLost_def Let_def split: if_splits)
    then show ?thesis using e2 e3 c3 by (simp add: emit_def)
  next
    case (Some r)
    then obtain s4 where cb: "CreateGPUBackendOnThread h r True s3 = Inr (None, s4)"
      and s': "s' = emit (AddIconOSDWarning ''HostGPUDeviceLost'') s4"
      using assms cd r3
      by (auto simp: HandleGPUDeviceLost_def Let_def split: if_splits sum.splits option.splits)
    obtain e4 where e4: "events s4 = events s3 @ e4"
      using ext_CreateBackend [OF cb] by auto
    show ?thesis
      using e2 e3 e4 c3 count_CreateBackend [OF cb] unfolding s' by (simp add: emit_def)
  qed
qed

lemma events_render_overlays:
  "events (render_overlays h s) = events s @ overlay_events h s"
  "gpu_backend (render_overlays h s) = gpu_backend s"
  "skipped_present_count (render_overlays h s) = skipped_present_count s"
  "g_gpu_device (render_overlays h s) = g_gpu_device s"
  by (simp_all add: render_overlays_def overlay_events_def emit_def)

lemma events_present_ok:
  "events (present_ok h d t s) = events s @ present_ok_events h d t"
  "gpu_backend (present_ok h d t s) = gpu_backend s"
  "skipped_present_count (present_ok h d t s) = 0"
  by (auto simp: present_ok_def present_ok_events_def emit_def Let_def)

lemma events_end_frame:
  "events (end_frame s) = events s @ new_frame_events s"
  "skipped_present_count (end_frame s) = skipped_present_count s"
  "gpu_backend (end_frame s) = gpu_backend s"
  "g_gpu_device (end_frame s) = g_gpu_device s"
  by (simp_all add: end_frame_def new_frame_events_def emit_def)

lemma events_skipped_frame:
  "events (skipped_frame s) = events s @ ImGuiEndFrame # new_frame_events s"
  by (simp add: skipped_frame_def end_frame_def new_frame_events_def emit_def)

lemma present_result_presents:
  "present_result h False s
     = (called_present_result h s, emit (present_event s) s)"
  by (simp add: present_result_def called_present_result_def present_event_def)

lemma PresentFrame_presented_ok:
  assumes d: "g_gpu_device s = Some d" and ns: "\<not> skip_present h d a s"
      and ok: "called_present_result h s = OK"
  shows "\<exists>s'. PresentFrame h a t s = Inr s'
           \<and> events s' = events s @ overlay_events h s @ [present_event s]
                           @ present_ok_events h d t @ new_frame_events s
           \<and> skipped_present_count s' = 0"
proof -
  have pr: "present_result h False (render_overlays h s)
              = (OK, emit (present_event s) (render_overlays h s))"
    using ok by (simp add: present_result_presents called_present_result_def present_event_def
                           events_render_overlays)
  have "PresentFrame h a t s
          = Inr (end_frame (present_ok h d t (emit (present_event s) (render_overlays h s))))"
    using d ns pr by (simp add: PresentFrame_def Let_def)
  then show ?thesis
    by (simp add: events_end_frame events_present_ok events_render_overlays new_frame_events_def
                  emit_def)
qed

lemma PresentFrame_presented:
  assumes d: "g_gpu_device s = Some d" and ns: "\<not> skip_present h d a s"
      and pf: "PresentFrame h a t s = Inr s'"
  shows "(\<exists>rest. events s' = events s @ overlay_events h s @ [present_event s] @ rest)
         \<and> (called_present_result h s \<noteq> OK \<longrightarrow>
              skipped_present_count s' = skipped_present_count s + 1)"
proof (cases "called_present_result h s = OK")
  case True
  from PresentFrame_presented_ok [OF d ns True, of t] pf True show ?thesis by auto
next
  case False
  let ?p = "called_present_result h s"
  let ?s2 = "emit (present_event s) (render_overlays h s)"
  let ?s3 = "?s2\<lparr>skipped_present_count := skipped_present_count ?s2 + 1\<rparr>"
  have pr: "present_result h False (render_overlays h s) = (?p, ?s2)"
    by (simp add: present_result_presents called_present_result_def present_event_def
                  events_render_overlays)
  have e3: "events ?s3 = events s @ overlay_events h s @ [present_event s]"
    and c3: "skipped_present_count ?s3 = skipped_present_count s + 1"
    by (simp_all add: events_render_overlays emit_def)
  have fin: "(\<exists>rest. events (end_frame (emit ImGuiEndFrame x))
                       = events s @ overlay_events h s @ [present_event s] @ rest)
             \<and> skipped_present_count (end_frame (emit ImGuiEndFrame x)) = skipped_present_count s + 1"
    if "\<exists>es. events x = events ?s3 @ es" "skipped_present_count x = skipped_present_count ?s3" for x
    using that e3 c3 by (auto simp: events_end_frame emit_def)
  show ?thesis
  proof (cases "?p = DeviceLost")
    case True
    then obtain s4 where l: "HandleGPUDeviceLost h ?s3 = Inr s4"
      and s': "s' = end_frame (emit ImGuiEndFrame s4)"
      using pf d ns pr by (auto simp: PresentFrame_def Let_def split: sum.splits)
    show ?thesis
      unfolding s' using fin [of s4] DeviceLost_extends [OF l] by blast
  next
    case nl: False
    then have "s' = end_frame (emit ImGuiEndFrame (HandleExclusiveFullscreenLost ?s3))
               \<or> s' = end_frame (emit ImGuiEndFrame (emit FlushCommands ?s3))"
      using pf d ns pr False by (auto simp: PresentFrame_def Let_def split: if_splits)
    moreover have "\<exists>es. events (HandleExclusiveFullscreenLost ?s3) = events ?s3 @ es"
      "skipped_present_count (HandleExclusiveFullscreenLost ?s3) = skipped_present_count ?s3"
      "\<exists>es. events (emit FlushCommands ?s3) = events ?s3 @ es"
      "skipped_present_count (emit FlushCommands ?s3) = skipped_present_count ?s3"
      by (simp_all add: HandleExclusiveFullscreenLost_def emit_def)
    ultimately show ?thesis
      using fin [of "HandleExclusiveFullscreenLost ?s3"] fin [of "emit FlushCommands ?s3"]
      by blast
  qed
qed


lemma skip_frame_fields:
  "g_gpu_device (skipped_frame s) = g_gpu_device s"
  "skipped_present_count (skipped_frame s) = skipped_present_count s + 1"
  "gpu_backend (skipped_frame s) = gpu_backend s"
  by (auto simp: skipped_frame_def end_frame_def emit_def)

lemma new_frame_events_cong:
  "gpu_backend s' = gpu_backend s \<Longrightarrow> new_frame_events s' = new_frame_events s"
  by (simp add: new_frame_events_def)

lemma PresentFrame_times_skips:
  assumes d: "g_gpu_device s = Some d"
      and sk: "should_skip_presenting_frame h"
      and c: "unat (skipped_present_count s) + k \<le> 50"
  shows "\<exists>s'. PresentFrame_times k h True t s = Inr s'
           \<and> g_gpu_device s' = Some d \<and> gpu_backend s' = gpu_backend s
           \<and> unat (skipped_present_count s') = unat (skipped_present_count s) + k
           \<and> events s' = events s @ concat (replicate k (ImGuiEndFrame # new_frame_events s))"
  using d c
proof (induction k arbitrary: s)
  case 0
  then show ?case by simp
next
  case (Suc k)
  have lt: "skipped_present_count s < MAX_SKIPPED_PRESENT_COUNT"
    using Suc.prems(2) by (simp add: word_less_nat_alt max_skipped)
  then have skip: "skip_present h d True s"
    using sk by (simp add: skip_present_def)
  have step: "PresentFrame h True t s = Inr (skipped_frame s)"
    using Suc.prems(1) skip by (rule PresentFrame_skipped)
  have cnt: "unat (skipped_present_count (skipped_frame s)) = unat (skipped_present_count s) + 1"
    using Suc.prems(2) by (simp add: skip_frame_fields unat_word_ariths)
  have "\<exists>s'. PresentFrame_times k h True t (skipped_frame s) = Inr s'
           \<and> g_gpu_device s' = Some d \<and> gpu_backend s' = gpu_backend (skipped_frame s)
           \<and> unat (skipped_present_count s') = unat (skipped_present_count (skipped_frame s)) + k
           \<and> events s' = events (skipped_frame s)
                @ concat (replicate k (ImGuiEndFrame # new_frame_events (skipped_frame s)))"
    using Suc.prems cnt by (intro Suc.IH) (simp_all add: skip_frame_fields)
  then obtain s' where r: "PresentFrame_times k h True t (skipped_frame s) = Inr s'"
    and f: "g_gpu_device s' = Some d" "gpu_backend s' = gpu_backend s"
           "unat (skipped_present_count s') = unat (skipped_present_count s) + Suc k"
    and e: "events s' = events (skipped_frame s)
                @ concat (replicate k (ImGuiEndFrame # new_frame_events (skipped_frame s)))"
    using cnt by (auto simp: skip_frame_fields)
  have nf: "new_frame_events (skipped_frame s) = new_frame_events s"
    by (rule new_frame_events_cong) (simp add: skip_frame_fields)
  have "events s' = events s @ concat (replicate (Suc k) (ImGuiEndFrame # new_frame_events s))"
    unfolding e nf events_skipped_frame by simp
  with r f step show ?case by simp
qed

lemma PresentFrame_times_Suc_end:
  "PresentFrame_times (Suc k) h a t x
     = (case PresentFrame_times k h a t x of
          Inl f \<Rightarrow> Inl f | Inr x' \<Rightarrow> PresentFrame h a t x')"
proof (induction k arbitrary: x)
  case 0
  show ?case by (simp split: sum.splits)
next
  case (Suc k)
  show ?case
  proof (cases "PresentFrame h a t x")
    case (Inl f)
    then show ?thesis by simp
  next
    case (Inr x')
    have "PresentFrame_times (Suc (Suc k)) h a t x = PresentFrame_times (Suc k) h a t x'"
      by (simp only: PresentFrame_times.simps(2) [of "Suc k"] Inr sum.case)
    also have "\<dots> = (case PresentFrame_times k h a t x' of
                         Inl f \<Rightarrow> Inl f | Inr y \<Rightarrow> PresentFrame h a t y)"
      by (rule Suc.IH)
    also have "\<dots> = (case PresentFrame_times (Suc k) h a t x of
                         Inl f \<Rightarrow> Inl f | Inr y \<Rightarrow> PresentFrame h a t y)"
      by (simp only: PresentFrame_times.simps(2) [of k] Inr sum.case)
    finally show ?thesis .
  qed
qed

text \<open>
  C4. \<open>PresentFrame\<close> skips a frame exactly when the device has no main swap chain, or
  skipping is allowed, the swap chain signals should-skip and the counter of consecutive
  frames without a successful present is below 50. A skipped frame renders and presents
  nothing: it ends ImGui's frame, begins a new one, and counts one up. A frame that is not
  skipped renders the overlays and then calls the present (the backend's \<open>PresentDisplay\<close>
  when there is a backend, the device's \<open>BeginPresent\<close> otherwise); when that present
  returns \<open>OK\<close> the frame is ended on the device and the counter is 0, and when it returns
  anything else the counter counts one up. So on a device with a main swap chain, from a
  counter of 0 and with should-skip forced on, 50 calls of \<open>PresentFrame(true, t)\<close> in a row
  render and present nothing, and the 51st renders the overlays and calls the present; when
  that present returns \<open>OK\<close> the counter is 0 again.
\<close>

theorem PresentFrame_skip_cap:
  assumes d: "g_gpu_device s = Some d"
  shows "(skip_present h d a s
            \<longleftrightarrow> \<not> has_main_swap_chain d
                \<or> (a \<and> should_skip_presenting_frame h \<and> unat (skipped_present_count s) < 50))
       \<and> (skip_present h d a s \<longrightarrow>
            (\<exists>s'. PresentFrame h a t s = Inr s'
                  \<and> events s' = events s @ ImGuiEndFrame # new_frame_events s
                  \<and> skipped_present_count s' = skipped_present_count s + 1))
       \<and> (\<not> skip_present h d a s \<longrightarrow>
            (\<forall>s'. PresentFrame h a t s = Inr s' \<longrightarrow>
                  (\<exists>rest. events s' = events s @ overlay_events h s @ [present_event s] @ rest)
                  \<and> (called_present_result h s \<noteq> OK \<longrightarrow>
                       skipped_present_count s' = skipped_present_count s + 1))
            \<and> (called_present_result h s = OK \<longrightarrow>
                 (\<exists>s'. PresentFrame h a t s = Inr s'
                       \<and> events s' = events s @ overlay_events h s @ [present_event s]
                                       @ present_ok_events h d t @ new_frame_events s
                       \<and> skipped_present_count s' = 0)))
       \<and> (has_main_swap_chain d \<and> should_skip_presenting_frame h \<and> skipped_present_count s = 0 \<longrightarrow>
            (\<exists>s50. PresentFrame_times 50 h True t s = Inr s50
                  \<and> events s50 = events s @ concat (replicate 50 (ImGuiEndFrame # new_frame_events s))
                  \<and> skipped_present_count s50 = 50
                  \<and> (\<forall>s'. PresentFrame_times 51 h True t s = Inr s' \<longrightarrow>
                        (\<exists>rest. events s' = events s50 @ overlay_events h s @ [present_event s] @ rest))
                  \<and> (called_present_result h s = OK \<longrightarrow>
                       (\<exists>s'. PresentFrame_times 51 h True t s = Inr s'
                             \<and> events s' = events s50 @ overlay_events h s @ [present_event s]
                                             @ present_ok_events h d t @ new_frame_events s
                             \<and> skipped_present_count s' = 0))))"
proof -
  have iff: "skip_present h d a s
            \<longleftrightarrow> \<not> has_main_swap_chain d
                \<or> (a \<and> should_skip_presenting_frame h \<and> unat (skipped_present_count s) < 50)"
    by (simp add: skip_present_def word_less_nat_alt max_skipped)
  have skipped: "\<exists>s'. PresentFrame h a t s = Inr s'
                  \<and> events s' = events s @ ImGuiEndFrame # new_frame_events s
                  \<and> skipped_present_count s' = skipped_present_count s + 1"
    if "skip_present h d a s"
    using PresentFrame_skipped [OF d that]
    by (simp add: events_skipped_frame skip_frame_fields)
  have presented: "(\<exists>rest. events s' = events s @ overlay_events h s @ [present_event s] @ rest)
                  \<and> (called_present_result h s \<noteq> OK \<longrightarrow>
                       skipped_present_count s' = skipped_present_count s + 1)"
    if "\<not> skip_present h d a s" "PresentFrame h a t s = Inr s'" for s'
    using d that by (rule PresentFrame_presented)
  have ok: "\<exists>s'. PresentFrame h a t s = Inr s'
                       \<and> events s' = events s @ overlay_events h s @ [present_event s]
                                       @ present_ok_events h d t @ new_frame_events s
                       \<and> skipped_present_count s' = 0"
    if "\<not> skip_present h d a s" "called_present_result h s = OK"
    using d that by (rule PresentFrame_presented_ok)
  have scenario:
    "\<exists>s50. PresentFrame_times 50 h True t s = Inr s50
                  \<and> events s50 = events s @ concat (replicate 50 (ImGuiEndFrame # new_frame_events s))
                  \<and> skipped_present_count s50 = 50
                  \<and> (\<forall>s'. PresentFrame_times 51 h True t s = Inr s' \<longrightarrow>
                        (\<exists>rest. events s' = events s50 @ overlay_events h s @ [present_event s] @ rest))
                  \<and> (called_present_result h s = OK \<longrightarrow>
                       (\<exists>s'. PresentFrame_times 51 h True t s = Inr s'
                             \<and> events s' = events s50 @ overlay_events h s @ [present_event s]
                                             @ present_ok_events h d t @ new_frame_events s
                             \<and> skipped_present_count s' = 0))"
    if sc: "has_main_swap_chain d" and sk: "should_skip_presenting_frame h"
       and z: "skipped_present_count s = 0"
  proof -
    obtain s50 where r50: "PresentFrame_times 50 h True t s = Inr s50"
      and d50: "g_gpu_device s50 = Some d" and b50: "gpu_backend s50 = gpu_backend s"
      and c50: "unat (skipped_present_count s50) = 50"
      and e50: "events s50 = events s @ concat (replicate 50 (ImGuiEndFrame # new_frame_events s))"
      using PresentFrame_times_skips [OF d sk, of 50 t] z by auto
    have w50: "skipped_present_count s50 = 50"
      using c50 by (simp add: word_unat_eq_iff)
    have ns: "\<not> skip_present h d True s50"
      using sc c50 by (simp add: skip_present_def word_less_nat_alt max_skipped)
    have split: "PresentFrame_times 51 h True t s = PresentFrame h True t s50"
      using PresentFrame_times_Suc_end [of 50 h True t s] r50 by simp
    have same: "overlay_events h s50 = overlay_events h s" "present_event s50 = present_event s"
      "called_present_result h s50 = called_present_result h s"
      "new_frame_events s50 = new_frame_events s"
      using b50 by (simp_all add: overlay_events_def present_event_def called_present_result_def
                                  new_frame_events_def)
    have a: "\<exists>rest. events s' = events s50 @ overlay_events h s @ [present_event s] @ rest"
      if "PresentFrame_times 51 h True t s = Inr s'" for s'
      using PresentFrame_presented [OF d50 ns, of t s'] that split same by simp
    have b: "\<exists>s'. PresentFrame_times 51 h True t s = Inr s'
                             \<and> events s' = events s50 @ overlay_events h s @ [present_event s]
                                             @ present_ok_events h d t @ new_frame_events s
                             \<and> skipped_present_count s' = 0"
      if "called_present_result h s = OK"
      using PresentFrame_presented_ok [OF d50 ns, of t] that split same by simp
    show ?thesis
      using r50 e50 w50 a b by blast
  qed
  show ?thesis
    using iff skipped presented ok scenario by blast
qed

text \<open>
  Without a main swap chain the frame is skipped with no should-skip signal and with the
  counter already at 50: the swap chain's signal and the cap are not the only reason to
  skip.
\<close>

theorem PresentFrame_skips_without_swap_chain:
  "\<not> should_skip_presenting_frame willing_Host
   \<and> \<not> skipped_present_count surfaceless_start < MAX_SKIPPED_PRESENT_COUNT
   \<and> PresentFrame willing_Host True 0 surfaceless_start
       = Inr (surfaceless_start
                \<lparr>skipped_present_count := 51,
                 events := [ImGuiEndFrame, ImGuiNewFrame, RestoreDeviceContext]\<rparr>)"
  by (simp add: PresentFrame_def skip_present_def present_result_def end_frame_def emit_def
                surfaceless_start_def initial_State_def willing_Host_def
                MAX_SKIPPED_PRESENT_COUNT_def Let_def)

theorem PresentFrame_skip_cap_witness:
  "(\<exists>s50. PresentFrame_times 50 skipping_Host True 0 present_start = Inr s50
      \<and> events s50 = concat (replicate 50 [ImGuiEndFrame, ImGuiNewFrame, RestoreDeviceContext])
      \<and> skipped_present_count s50 = 50
      \<and> (\<exists>s'. PresentFrame_times 51 skipping_Host True 0 present_start = Inr s'
              \<and> events s' = events s50
                   @ [RenderFullscreenUI, RenderTextOverlays, RenderOSDMessages,
                      RenderSoftwareCursors, RenderOverlayWindows, RenderDebugWindows,
                      PresentDisplay, RenderImGui, EndPresent False 0,
                      ImGuiNewFrame, RestoreDeviceContext]
              \<and> skipped_present_count s' = 0))
   \<and> (\<exists>s'. PresentFrame skipping_Host True 0 present_start = Inr s'
          \<and> events s' = [ImGuiEndFrame, ImGuiNewFrame, RestoreDeviceContext]
          \<and> skipped_present_count s' = 1)
   \<and> (\<exists>s'. PresentFrame skipping_Host False 0 present_start = Inr s'
          \<and> events s' = [RenderFullscreenUI, RenderTextOverlays, RenderOSDMessages,
                          RenderSoftwareCursors, RenderOverlayWindows, RenderDebugWindows,
                          PresentDisplay, RenderImGui, EndPresent False 0,
                          ImGuiNewFrame, RestoreDeviceContext]
          \<and> skipped_present_count s' = 0)"
proof -
  let ?d = "\<lparr>render_api = RenderAPI_Some 0, has_main_swap_chain = True, gpu_timing_enabled = False\<rparr>"
  have d: "g_gpu_device present_start = Some ?d"
    by (simp add: present_start_def)
  have hyp: "has_main_swap_chain ?d \<and> should_skip_presenting_frame skipping_Host
             \<and> skipped_present_count present_start = 0"
    by (simp add: present_start_def initial_State_def skipping_Host_def willing_Host_def)
  have ok: "called_present_result skipping_Host present_start = OK"
    by (simp add: called_present_result_def present_start_def skipping_Host_def willing_Host_def)
  have ev: "events present_start = []"
    "new_frame_events present_start = [ImGuiNewFrame, RestoreDeviceContext]"
    "overlay_events skipping_Host present_start
       = [RenderFullscreenUI, RenderTextOverlays, RenderOSDMessages,
          RenderSoftwareCursors, RenderOverlayWindows, RenderDebugWindows]"
    "present_event present_start = PresentDisplay"
    "present_ok_events skipping_Host ?d 0 = [RenderImGui, EndPresent False 0]"
    "skipped_present_count present_start = 0"
    by (simp_all add: present_start_def initial_State_def skipping_Host_def willing_Host_def
                      new_frame_events_def overlay_events_def present_event_def
                      present_ok_events_def)
  have sk: "skip_present skipping_Host ?d True present_start"
    using PresentFrame_skip_cap [OF d, of skipping_Host True 0, THEN conjunct1] hyp
    by simp
  have nsk: "\<not> skip_present skipping_Host ?d False present_start"
    using PresentFrame_skip_cap [OF d, of skipping_Host False 0, THEN conjunct1] hyp
    by simp
  have one: "\<exists>s'. PresentFrame skipping_Host True 0 present_start = Inr s'
          \<and> events s' = [ImGuiEndFrame, ImGuiNewFrame, RestoreDeviceContext]
          \<and> skipped_present_count s' = 1"
    using PresentFrame_skip_cap [OF d, of skipping_Host True 0,
            THEN conjunct2, THEN conjunct1, THEN mp, OF sk]
    unfolding ev by simp
  have two: "\<exists>s'. PresentFrame skipping_Host False 0 present_start = Inr s'
          \<and> events s' = [RenderFullscreenUI, RenderTextOverlays, RenderOSDMessages,
                          RenderSoftwareCursors, RenderOverlayWindows, RenderDebugWindows,
                          PresentDisplay, RenderImGui, EndPresent False 0,
                          ImGuiNewFrame, RestoreDeviceContext]
          \<and> skipped_present_count s' = 0"
    using PresentFrame_skip_cap [OF d, of skipping_Host False 0,
            THEN conjunct2, THEN conjunct2, THEN conjunct1, THEN mp, OF nsk,
            THEN conjunct2, THEN mp, OF ok]
    unfolding ev by simp
  from PresentFrame_skip_cap [OF d, of skipping_Host True 0,
         THEN conjunct2, THEN conjunct2, THEN conjunct2, THEN mp, OF hyp] ok
  have scen: "\<exists>s50. PresentFrame_times 50 skipping_Host True 0 present_start = Inr s50
      \<and> events s50 = concat (replicate 50 [ImGuiEndFrame, ImGuiNewFrame, RestoreDeviceContext])
      \<and> skipped_present_count s50 = 50
      \<and> (\<exists>s'. PresentFrame_times 51 skipping_Host True 0 present_start = Inr s'
              \<and> events s' = events s50
                   @ [RenderFullscreenUI, RenderTextOverlays, RenderOSDMessages,
                      RenderSoftwareCursors, RenderOverlayWindows, RenderDebugWindows,
                      PresentDisplay, RenderImGui, EndPresent False 0,
                      ImGuiNewFrame, RestoreDeviceContext]
              \<and> skipped_present_count s' = 0)"
    unfolding ev by auto
  show ?thesis
    using scen one two by blast
qed

subsection \<open>Backend creation\<close>

text \<open>
  C6. When a hardware renderer is requested (and the CPU thread has recorded a requested
  renderer) and the hardware backend fails to initialize, \<open>CreateGPUBackendOnThread\<close> posts
  the OSD message, records \<open>Software\<close> as the requested renderer, and constructs and
  initializes the software backend. It returns \<open>true\<close> when that succeeds, and returns \<open>false\<close>
  with the software backend's error only when the fallback fails too; \<open>ReconfigureOnThread\<close>
  stores that result in \<open>cmd->result\<close> and the error through \<open>cmd->error_ptr\<close>.
\<close>

theorem CreateGPUBackendOnThread_falls_back:
  assumes hw: "rend \<noteq> Software"
      and rr: "requested_renderer s = Some r"
      and dev: "g_gpu_device s = Some d"
      and fail: "backend_initialize h HardwareBackend u = Some e"
  shows "(backend_initialize h SoftwareBackend u = None \<longrightarrow>
            (\<exists>s'. CreateGPUBackendOnThread h rend u s = Inr (None, s')
                  \<and> gpu_backend s' = Some SoftwareBackend
                  \<and> requested_renderer s' = Some Software
                  \<and> events s' = events s @ [BackendCreated HardwareBackend,
                                              AddIconOSDMessage ''GPUBackendCreationFailed'',
                                              BackendCreated SoftwareBackend]))
       \<and> (\<forall>e2. backend_initialize h SoftwareBackend u = Some e2 \<longrightarrow>
            (\<exists>s'. CreateGPUBackendOnThread h rend u s = Inr (Some e2, s')
                  \<and> requested_renderer s' = Some Software
                  \<and> events s' = events s @ [BackendCreated HardwareBackend,
                                              AddIconOSDMessage ''GPUBackendCreationFailed'',
                                              BackendCreated SoftwareBackend]))
       \<and> (\<forall>cmd cmd' s' api. renderer cmd = Some rend \<and> upload_vram cmd = u
              \<and> Reconfigure_finish h api cmd s = Inr (cmd', s') \<longrightarrow>
              result cmd' = (backend_initialize h SoftwareBackend u = None)
              \<and> (\<forall>e2. backend_initialize h SoftwareBackend u = Some e2 \<longrightarrow>
                    error_ptr cmd' = set_error (error_ptr cmd) e2))"
  using assms
  by (auto simp: CreateGPUBackendOnThread_def backend_created_def Let_def emit_def
                 Reconfigure_finish_def
           split: option.splits)



theorem CreateGPUBackendOnThread_falls_back_witness:
  "(\<exists>s'. CreateGPUBackendOnThread hardware_failing_Host Hardware False hardware_requested
            = Inr (None, s')
         \<and> gpu_backend s' = Some SoftwareBackend \<and> requested_renderer s' = Some Software
         \<and> AddIconOSDMessage ''GPUBackendCreationFailed'' \<in> set (events s'))
   \<and> (\<exists>s'. CreateGPUBackendOnThread all_failing_Host Hardware False hardware_requested
            = Inr (Some ''no backend'', s')
         \<and> requested_renderer s' = Some Software)"
proof -
  let ?d = "\<lparr>render_api = RenderAPI_Some 0, has_main_swap_chain = True, gpu_timing_enabled = False\<rparr>"
  have hw: "Hardware \<noteq> Software"
    and rr: "requested_renderer hardware_requested = Some Hardware"
    and dev: "g_gpu_device hardware_requested = Some ?d"
    and f1: "backend_initialize hardware_failing_Host HardwareBackend False = Some ''no hardware''"
    and ok1: "backend_initialize hardware_failing_Host SoftwareBackend False = None"
    and f2: "backend_initialize all_failing_Host HardwareBackend False = Some ''no backend''"
    and f3: "backend_initialize all_failing_Host SoftwareBackend False = Some ''no backend''"
    by (simp_all add: hardware_requested_def present_start_def initial_State_def
                      hardware_failing_Host_def all_failing_Host_def willing_Host_def)
  from CreateGPUBackendOnThread_falls_back [OF hw rr dev f1, THEN conjunct1] ok1
  obtain s1 where "CreateGPUBackendOnThread hardware_failing_Host Hardware False hardware_requested
                     = Inr (None, s1)"
    "gpu_backend s1 = Some SoftwareBackend" "requested_renderer s1 = Some Software"
    "events s1 = events hardware_requested @ [BackendCreated HardwareBackend,
                    AddIconOSDMessage ''GPUBackendCreationFailed'', BackendCreated SoftwareBackend]"
    by blast
  moreover
  from CreateGPUBackendOnThread_falls_back [OF hw rr dev f2, THEN conjunct2, THEN conjunct1] f3
  obtain s2 where "CreateGPUBackendOnThread all_failing_Host Hardware False hardware_requested
                     = Inr (Some ''no backend'', s2)" "requested_renderer s2 = Some Software"
    by blast
  ultimately show ?thesis by auto
qed


subsection \<open>Device loss\<close>

lemma destroyed_fields:
  "gpu_backend (DestroyDeviceOnThread (DestroyGPUBackendOnThread s)) = None"
  "g_gpu_device (DestroyDeviceOnThread (DestroyGPUBackendOnThread s)) = None"
  "requested_renderer (DestroyDeviceOnThread (DestroyGPUBackendOnThread s)) = requested_renderer s"
  "requested_fullscreen_ui (DestroyDeviceOnThread (DestroyGPUBackendOnThread s)) = requested_fullscreen_ui s"
  "s_last_gpu_reset_time (DestroyDeviceOnThread (DestroyGPUBackendOnThread s)) = s_last_gpu_reset_time s"
  by (auto simp: DestroyDeviceOnThread_def DestroyGPUBackendOnThread_def emit_def split: option.splits)

lemma destroyed_events:
  "events (DestroyDeviceOnThread (DestroyGPUBackendOnThread s))
     = events s
       @ (if gpu_backend s \<noteq> None then [BackendDestroyed] else [])
       @ (case g_gpu_device s of
            None \<Rightarrow> []
          | Some d \<Rightarrow> [FullscreenUIShutdown, ImGuiShutdown, DeviceDestroyed (render_api d)]
                       @ (if has_main_swap_chain d then [ReleaseRenderWindow] else []))"
  by (auto simp: DestroyDeviceOnThread_def DestroyGPUBackendOnThread_def emit_def split: option.splits)

lemma CreateDevice_succeeds:
  assumes "create_device_for_api h api"
      and "acquire_render_window h api fs (fs \<and> supports_exclusive_fullscreen h \<and> fullscreen_mode_setting h)
             = Some surfaceless"
      and "device_create_ok h api" "imgui_initialize_ok h"
      and "requested_fullscreen_ui s \<longrightarrow> fullscreen_ui_initialize_ok h"
  shows "\<exists>s'. CreateDeviceOnThread h api fs s = (None, s')
           \<and> g_gpu_device s' = Some \<lparr>render_api = api, has_main_swap_chain = \<not> surfaceless,
                                       gpu_timing_enabled = False\<rparr>
           \<and> events s' = events s @ [AcquireRenderWindow api fs, DeviceCreated api fs, ImGuiInitialized]
                            @ (if requested_fullscreen_ui s then [FullscreenUIInitialized] else [])
           \<and> gpu_backend s' = gpu_backend s \<and> requested_renderer s' = requested_renderer s
           \<and> s_last_gpu_reset_time s' = s_last_gpu_reset_time s"
  using assms by (auto simp: CreateDeviceOnThread_def Let_def emit_def)

lemma CreateDevice_fullscreen_ui_fails:
  assumes "create_device_for_api h api"
      and "acquire_render_window h api fs (fs \<and> supports_exclusive_fullscreen h \<and> fullscreen_mode_setting h)
             = Some surfaceless"
      and "device_create_ok h api" "imgui_initialize_ok h"
      and "requested_fullscreen_ui s" "\<not> fullscreen_ui_initialize_ok h"
  shows "\<exists>s'. CreateDeviceOnThread h api fs s = (Some ''Failed to initialize ImGuiManager'', s')
           \<and> g_gpu_device s' = None
           \<and> events s' = events s @ [AcquireRenderWindow api fs, DeviceCreated api fs, ImGuiInitialized,
                                         FullscreenUIShutdown, ImGuiShutdown, DeviceDestroyed api,
                                         ReleaseRenderWindow]"
  using assms by (auto simp: CreateDeviceOnThread_def Let_def emit_def)

lemma CreateBackend_succeeds:
  assumes "backend_initialize h (backend_for r) u = None" "g_gpu_device s = Some d"
  shows "\<exists>s'. CreateGPUBackendOnThread h r u s = Inr (None, s')
           \<and> gpu_backend s' = Some (backend_for r)
           \<and> events s' = events s @ [BackendCreated (backend_for r)]
           \<and> s_last_gpu_reset_time s' = s_last_gpu_reset_time s"
  using assms
  by (auto simp: CreateGPUBackendOnThread_def backend_created_def backend_for_def Let_def emit_def)

text \<open>
  C5. \<open>HandleGPUDeviceLost\<close>, which \<open>PresentFrame\<close> calls when the present returns
  \<open>DeviceLost\<close>. When a recovery is on record and less than 15 seconds of timer ticks have
  passed since, it panics. Otherwise (the first loss, or one at least 15 seconds after the
  last) it records the time, destroys the backend and the device, and re-creates the device
  for the API of the requested renderer with the host's current fullscreen state, and the
  backend of the requested renderer with the VRAM uploaded; when the collaborators succeed
  it ends with the OSD warning, and a further loss within 15 seconds of that recovery
  panics. (When the re-creation fails the handler panics as well.)
\<close>

theorem HandleGPUDeviceLost_recovers_once:
  fixes h :: Host and s :: State
  defines "now \<equiv> timer_current_value h"
      and "api \<equiv> render_api_for_renderer h
                    (case requested_renderer s of None \<Rightarrow> settings_gpu_renderer h | Some r \<Rightarrow> r)"
      and "fs \<equiv> host_is_fullscreen h"
  shows "(\<forall>d p s2. g_gpu_device s = Some d \<and> \<not> skip_present h d a s
              \<and> present_result h False (render_overlays h s) = (DeviceLost, s2) \<longrightarrow>
            PresentFrame h a t s
              = (case HandleGPUDeviceLost h
                        (s2\<lparr>skipped_present_count := skipped_present_count s2 + 1\<rparr>) of
                   Inl f \<Rightarrow> Inl f
                 | Inr s4 \<Rightarrow> Inr (end_frame (emit ImGuiEndFrame s4))))
       \<and> (s_last_gpu_reset_time s \<noteq> 0
            \<and> unat (now - s_last_gpu_reset_time s) < 15 * timer_frequency h \<longrightarrow>
          HandleGPUDeviceLost h s
            = Inl (Panic ''Host GPU lost too many times, device is probably completely wedged.''))
       \<and> ((s_last_gpu_reset_time s = 0
              \<or> 15 * timer_frequency h \<le> unat (now - s_last_gpu_reset_time s))
            \<and> create_device_for_api h api
            \<and> acquire_render_window h api fs
                 (fs \<and> supports_exclusive_fullscreen h \<and> fullscreen_mode_setting h) = Some surfaceless
            \<and> device_create_ok h api \<and> imgui_initialize_ok h
            \<and> (requested_fullscreen_ui s \<longrightarrow> fullscreen_ui_initialize_ok h)
            \<and> (\<forall>r. requested_renderer s = Some r \<longrightarrow> backend_initialize h (backend_for r) True = None)
           \<longrightarrow>
          (\<exists>s'. HandleGPUDeviceLost h s = Inr s'
             \<and> s_last_gpu_reset_time s' = now
             \<and> events s'
                 = events s
                   @ (if gpu_backend s \<noteq> None then [BackendDestroyed] else [])
                   @ (case g_gpu_device s of
                        None \<Rightarrow> []
                      | Some d \<Rightarrow> [FullscreenUIShutdown, ImGuiShutdown, DeviceDestroyed (render_api d)]
                                   @ (if has_main_swap_chain d then [ReleaseRenderWindow] else []))
                   @ [AcquireRenderWindow api fs, DeviceCreated api fs, ImGuiInitialized]
                   @ (if requested_fullscreen_ui s then [FullscreenUIInitialized] else [])
                   @ (case requested_renderer s of
                        None \<Rightarrow> [] | Some r \<Rightarrow> [BackendCreated (backend_for r)])
                   @ [AddIconOSDWarning ''HostGPUDeviceLost'']
             \<and> g_gpu_device s' = Some \<lparr>render_api = api, has_main_swap_chain = \<not> surfaceless,
                                         gpu_timing_enabled =
                                           (requested_renderer s \<noteq> None
                                            \<and> settings_display_show_gpu_usage h)\<rparr>
             \<and> gpu_backend s' = map_option backend_for (requested_renderer s)
             \<and> (\<forall>h2. now \<noteq> 0
                    \<and> unat (timer_current_value h2 - now) < 15 * timer_frequency h2 \<longrightarrow>
                    HandleGPUDeviceLost h2 s'
                      = Inl (Panic ''Host GPU lost too many times, device is probably completely wedged.''))))"
proof -
  have panic: "HandleGPUDeviceLost h' x
            = Inl (Panic ''Host GPU lost too many times, device is probably completely wedged.'')"
    if "s_last_gpu_reset_time x \<noteq> 0"
       "unat (timer_current_value h' - s_last_gpu_reset_time x) < 15 * timer_frequency h'" for h' x
    using that by (simp add: HandleGPUDeviceLost_def Let_def)
  have recover: "\<exists>s'. HandleGPUDeviceLost h s = Inr s'
             \<and> s_last_gpu_reset_time s' = now
             \<and> events s'
                 = events s
                   @ (if gpu_backend s \<noteq> None then [BackendDestroyed] else [])
                   @ (case g_gpu_device s of
                        None \<Rightarrow> []
                      | Some d \<Rightarrow> [FullscreenUIShutdown, ImGuiShutdown, DeviceDestroyed (render_api d)]
                                   @ (if has_main_swap_chain d then [ReleaseRenderWindow] else []))
                   @ [AcquireRenderWindow api fs, DeviceCreated api fs, ImGuiInitialized]
                   @ (if requested_fullscreen_ui s then [FullscreenUIInitialized] else [])
                   @ (case requested_renderer s of
                        None \<Rightarrow> [] | Some r \<Rightarrow> [BackendCreated (backend_for r)])
                   @ [AddIconOSDWarning ''HostGPUDeviceLost'']
             \<and> g_gpu_device s' = Some \<lparr>render_api = api, has_main_swap_chain = \<not> surfaceless,
                                         gpu_timing_enabled =
                                           (requested_renderer s \<noteq> None
                                            \<and> settings_display_show_gpu_usage h)\<rparr>
             \<and> gpu_backend s' = map_option backend_for (requested_renderer s)"
    if first: "s_last_gpu_reset_time s = 0
              \<or> 15 * timer_frequency h \<le> unat (now - s_last_gpu_reset_time s)"
      and c1: "create_device_for_api h api"
      and c2: "acquire_render_window h api fs
                 (fs \<and> supports_exclusive_fullscreen h \<and> fullscreen_mode_setting h) = Some surfaceless"
      and c3: "device_create_ok h api" and c4: "imgui_initialize_ok h"
      and c5: "requested_fullscreen_ui s \<longrightarrow> fullscreen_ui_initialize_ok h"
      and c6: "\<forall>r. requested_renderer s = Some r \<longrightarrow> backend_initialize h (backend_for r) True = None"
  proof -
    let ?s1 = "s\<lparr>s_last_gpu_reset_time := now\<rparr>"
    let ?s2 = "DestroyDeviceOnThread (DestroyGPUBackendOnThread ?s1)"
    have nop: "\<not> (s_last_gpu_reset_time s \<noteq> 0
                   \<and> unat (now - s_last_gpu_reset_time s) < 15 * timer_frequency h)"
      using first by auto
    have c5': "requested_fullscreen_ui ?s2 \<longrightarrow> fullscreen_ui_initialize_ok h"
      using c5 by (simp add: destroyed_fields)
    from CreateDevice_succeeds [OF c1 c2 c3 c4 c5']
    obtain s3 where s3: "CreateDeviceOnThread h api fs ?s2 = (None, s3)"
      and d3: "g_gpu_device s3 = Some \<lparr>render_api = api, has_main_swap_chain = \<not> surfaceless,
                                       gpu_timing_enabled = False\<rparr>"
      and e3: "events s3 = events ?s2 @ [AcquireRenderWindow api fs, DeviceCreated api fs, ImGuiInitialized]
                            @ (if requested_fullscreen_ui ?s2 then [FullscreenUIInitialized] else [])"
      and b3: "gpu_backend s3 = gpu_backend ?s2" and r3: "requested_renderer s3 = requested_renderer ?s2"
      and t3: "s_last_gpu_reset_time s3 = s_last_gpu_reset_time ?s2"
      by blast
    have api2: "render_api_for_renderer h
             (case requested_renderer ?s2 of None \<Rightarrow> settings_gpu_renderer h | Some r \<Rightarrow> r) = api"
      by (simp add: api_def destroyed_fields)
    show ?thesis
    proof (cases "requested_renderer s")
      case None
      then have "HandleGPUDeviceLost h s = Inr (emit (AddIconOSDWarning ''HostGPUDeviceLost'') s3)"
        using nop s3 r3 api2
        by (simp add: HandleGPUDeviceLost_def Let_def now_def fs_def destroyed_fields)
      then show ?thesis
        using None d3 e3 b3 t3
        by (simp add: emit_def destroyed_fields destroyed_events)
    next
      case (Some r)
      then have "backend_initialize h (backend_for r) True = None"
        using c6 by simp
      from CreateBackend_succeeds [OF this d3]
      obtain s4 where s4: "CreateGPUBackendOnThread h r True s3 = Inr (None, s4)"
        and b4: "gpu_backend s4 = Some (backend_for r)"
        and e4: "events s4 = events s3 @ [BackendCreated (backend_for r)]"
        and t4: "s_last_gpu_reset_time s4 = s_last_gpu_reset_time s3"
        by blast
      have d4: "g_gpu_device s4 = Some \<lparr>render_api = api, has_main_swap_chain = \<not> surfaceless,
                                         gpu_timing_enabled = settings_display_show_gpu_usage h\<rparr>"
        using s4 d3 \<open>backend_initialize h (backend_for r) True = None\<close>
        by (auto simp: CreateGPUBackendOnThread_def backend_created_def backend_for_def Let_def emit_def
                 split: if_splits)
      have "HandleGPUDeviceLost h s = Inr (emit (AddIconOSDWarning ''HostGPUDeviceLost'') s4)"
        using nop s3 r3 api2 Some s4
        by (simp add: HandleGPUDeviceLost_def Let_def now_def fs_def destroyed_fields)
      then show ?thesis
        using Some d4 e3 e4 b4 t3 t4
        by (simp add: emit_def destroyed_fields destroyed_events)
    qed
  qed
  have present: "PresentFrame h a t s
              = (case HandleGPUDeviceLost h
                        (s2\<lparr>skipped_present_count := skipped_present_count s2 + 1\<rparr>) of
                   Inl f \<Rightarrow> Inl f
                 | Inr s4 \<Rightarrow> Inr (end_frame (emit ImGuiEndFrame s4)))"
    if "g_gpu_device s = Some d" "\<not> skip_present h d a s"
       "present_result h False (render_overlays h s) = (DeviceLost, s2)" for d s2
    using that by (simp add: PresentFrame_def Let_def split: sum.splits)
  have rest: "(s_last_gpu_reset_time s \<noteq> 0
            \<and> unat (now - s_last_gpu_reset_time s) < 15 * timer_frequency h \<longrightarrow>
          HandleGPUDeviceLost h s
            = Inl (Panic ''Host GPU lost too many times, device is probably completely wedged.''))"
    using panic [of s h] by (simp add: now_def)
  show ?thesis
    apply (intro conjI)
      apply (use present in blast)
     apply (rule rest)
    using recover panic apply (fastforce simp: now_def)
    done
qed


theorem HandleGPUDeviceLost_recovers_once_witness:
  "\<exists>s'. HandleGPUDeviceLost willing_Host software_running = Inr s'
        \<and> events s' = [BackendDestroyed, FullscreenUIShutdown, ImGuiShutdown,
                        DeviceDestroyed (RenderAPI_Some 0), ReleaseRenderWindow,
                        AcquireRenderWindow (RenderAPI_Some 0) False,
                        DeviceCreated (RenderAPI_Some 0) False, ImGuiInitialized,
                        BackendCreated SoftwareBackend, AddIconOSDWarning ''HostGPUDeviceLost'']
        \<and> gpu_backend s' = Some SoftwareBackend
        \<and> HandleGPUDeviceLost later_Host s'
            = Inl (Panic ''Host GPU lost too many times, device is probably completely wedged.'')"
proof -
  have hyp: "(s_last_gpu_reset_time software_running = 0
              \<or> 15 * timer_frequency willing_Host
                   \<le> unat (timer_current_value willing_Host - s_last_gpu_reset_time software_running))
            \<and> create_device_for_api willing_Host (RenderAPI_Some 0)
            \<and> acquire_render_window willing_Host (RenderAPI_Some 0) False
                 (False \<and> supports_exclusive_fullscreen willing_Host
                  \<and> fullscreen_mode_setting willing_Host) = Some False
            \<and> device_create_ok willing_Host (RenderAPI_Some 0) \<and> imgui_initialize_ok willing_Host
            \<and> (requested_fullscreen_ui software_running \<longrightarrow> fullscreen_ui_initialize_ok willing_Host)
            \<and> (\<forall>r. requested_renderer software_running = Some r \<longrightarrow>
                   backend_initialize willing_Host (backend_for r) True = None)"
    by (simp add: software_running_def present_start_def initial_State_def willing_Host_def)
  have vals: "render_api_for_renderer willing_Host
                (case requested_renderer software_running of
                   None \<Rightarrow> settings_gpu_renderer willing_Host | Some r \<Rightarrow> r) = RenderAPI_Some 0"
    "host_is_fullscreen willing_Host = False" "timer_current_value willing_Host = 1000"
    "timer_current_value later_Host = 1100" "timer_frequency later_Host = 10"
    by (simp_all add: willing_Host_def later_Host_def)
  from HandleGPUDeviceLost_recovers_once
         [where h = willing_Host and s = software_running and surfaceless = False,
          THEN conjunct2, THEN conjunct2, unfolded vals, THEN mp, OF hyp [unfolded vals]]
  obtain s' where r: "HandleGPUDeviceLost willing_Host software_running = Inr s'"
    and e: "events s'
                 = events software_running
                   @ (if gpu_backend software_running \<noteq> None then [BackendDestroyed] else [])
                   @ (case g_gpu_device software_running of
                        None \<Rightarrow> []
                      | Some d \<Rightarrow> [FullscreenUIShutdown, ImGuiShutdown, DeviceDestroyed (render_api d)]
                                   @ (if has_main_swap_chain d then [ReleaseRenderWindow] else []))
                   @ [AcquireRenderWindow (RenderAPI_Some 0) False,
                      DeviceCreated (RenderAPI_Some 0) False, ImGuiInitialized]
                   @ (if requested_fullscreen_ui software_running then [FullscreenUIInitialized] else [])
                   @ (case requested_renderer software_running of
                        None \<Rightarrow> [] | Some r \<Rightarrow> [BackendCreated (backend_for r)])
                   @ [AddIconOSDWarning ''HostGPUDeviceLost'']"
    and b: "gpu_backend s' = map_option backend_for (requested_renderer software_running)"
    and p: "\<forall>h2. (1000 :: u64) \<noteq> 0 \<and> unat (timer_current_value h2 - 1000) < 15 * timer_frequency h2 \<longrightarrow>
              HandleGPUDeviceLost h2 s'
                = Inl (Panic ''Host GPU lost too many times, device is probably completely wedged.'')"
    by blast
  have "HandleGPUDeviceLost later_Host s'
          = Inl (Panic ''Host GPU lost too many times, device is probably completely wedged.'')"
    using p [rule_format, of later_Host] by (simp add: vals)
  with r e b show ?thesis
    by (simp add: software_running_def present_start_def initial_State_def backend_for_def)
qed

subsection \<open>The fullscreen UI\<close>

lemma invoke_StopFullscreenUI_lambda:
  "requested_fullscreen_ui (invoke StopFullscreenUI_lambda s)"
  by simp

lemma ReconfigureOnThread_stops_fullscreen_ui:
  assumes "renderer cmd = None" "start_fullscreen_ui cmd = Some False"
  shows "\<exists>s'. ReconfigureOnThread h cmd s = Inr (cmd, s') \<and> \<not> requested_fullscreen_ui s'
              \<and> gpu_backend s' = None \<and> g_gpu_device s' = None"
  using assms
  by (auto simp: ReconfigureOnThread_def Let_def DestroyDeviceOnThread_def DestroyGPUBackendOnThread_def
                 emit_def split: option.splits)

lemma AlignUpPow2_evals:
  "AlignUpPow2 48 4 = 48" "AlignUpPow2 64 4 = 64"
  by (simp_all add: AlignUpPow2_def)

text \<open>
  C10. The claim fails on the code when a system is valid: the callable that
  \<open>StopFullscreenUI\<close> posts sets \<open>requested_fullscreen_ui\<close> to \<open>true\<close>, as the one of
  \<open>StartFullscreenUI\<close> does. With a system running and the fullscreen UI requested,
  \<open>StopFullscreenUI\<close> enqueues an \<open>AsyncCall\<close> slot; after the GPU thread has executed it
  and drained the ring, the fullscreen UI is still requested.
\<close>

theorem StopFullscreenUI_leaves_fullscreen_ui_requested:
  "(case StopFullscreenUI some_Sizes willing_Host Disabled False fsui_with_system of
      None \<Rightarrow> False
    | Some s1 \<Rightarrow>
        cmd_type (command_fifo_data s1 0) = AsyncCall
        \<and> command_fifo_write_ptr s1 = 48
        \<and> (case GPUThreadEntryPoint (Suc (Suc (Suc (Suc 0)))) willing_Host s1 of
             Asleep s2 \<Rightarrow>
               requested_fullscreen_ui s2
               \<and> command_fifo_read_ptr s2 = command_fifo_write_ptr s2
           | _ \<Rightarrow> False))"
  apply (simp add: StopFullscreenUI_def willing_Host_def some_Sizes_def RunOnThread_def
                   AllocateCommand_def AlignUpPow2_evals)
  apply (subst AllocateCommand_loop.simps)
  apply (simp add: fsui_with_system_def present_start_def initial_State_def COMMAND_QUEUE_SIZE_def
       PushCommandAndWakeThread_def
       advance_write_ptr_def write_command_header_def write_wraparound_def WakeGPUThread_def
       Let_def zeroed_ring_def emit_def
       SleepGPUThread.simps GetThreadWakeCount_def THREAD_WAKE_COUNT_CPU_THREAD_IS_WAITING_def
       THREAD_WAKE_COUNT_SLEEPING_def)
  done

text \<open>
  The other path of \<open>StopFullscreenUI\<close> does what its name says: with no valid system it
  enqueues a \<open>Reconfigure\<close> with \<open>start_fullscreen_ui = false\<close>, after which the fullscreen UI
  is no longer requested.
\<close>

lemma StopFullscreenUI_reconfigure_path:
  "(case StopFullscreenUI some_Sizes no_system_Host Disabled False fsui_only of
      None \<Rightarrow> False
    | Some s1 \<Rightarrow>
        cmd_type (command_fifo_data s1 0) = Reconfigure
        \<and> (case GPUThreadEntryPoint (Suc (Suc (Suc (Suc 0)))) no_system_Host s1 of
             Asleep s2 \<Rightarrow>
               \<not> requested_fullscreen_ui s2
               \<and> command_fifo_read_ptr s2 = command_fifo_write_ptr s2
           | _ \<Rightarrow> False))"
  apply (simp add: StopFullscreenUI_def no_system_Host_def willing_Host_def some_Sizes_def Reconfigure_publish_def
                   AllocateCommand_def AlignUpPow2_evals)
  apply (subst AllocateCommand_loop.simps)
  apply (simp add: fsui_only_def present_start_def initial_State_def COMMAND_QUEUE_SIZE_def
       PushCommandAndWakeThread_def
       advance_write_ptr_def write_command_header_def write_wraparound_def WakeGPUThread_def
       Let_def zeroed_ring_def emit_def ReconfigureOnThread_def DestroyDeviceOnThread_def DestroyGPUBackendOnThread_def
       SleepGPUThread.simps GetThreadWakeCount_def THREAD_WAKE_COUNT_CPU_THREAD_IS_WAITING_def
       THREAD_WAKE_COUNT_SLEEPING_def)
  done

section \<open>Properties of the software backend\<close>

subsection \<open>Collecting reads\<close>

lemma collect_Inr_iff: "collect xs = Inr vs \<longleftrightarrow> xs = map Inr vs"
proof (induction xs arbitrary: vs)
  case Nil
  show ?case by auto
next
  case (Cons x xs)
  show ?case
  proof (cases x)
    case (Inl e)
    then show ?thesis by auto
  next
    case v: (Inr v)
    show ?thesis
    proof (cases "collect xs")
      case (Inl e)
      with Cons.IH have "xs \<noteq> map Inr vs'" for vs'
        by (metis sum.distinct(1))
      with Inl v show ?thesis by auto
    next
      case (Inr ws)
      have "xs = map Inr ws" using Cons.IH [of ws] Inr by simp
      with Inr v show ?thesis by auto
    qed
  qed
qed

lemma collect_some_Inl:
  "Inl e \<in> set xs \<Longrightarrow> \<exists>e'. collect xs = Inl e' \<and> Inl e' \<in> set xs"
proof (induction xs)
  case Nil
  then show ?case by simp
next
  case (Cons x xs)
  show ?case
  proof (cases x)
    case (Inl a)
    then show ?thesis by simp
  next
    case (Inr b)
    with Cons.prems have "Inl e \<in> set xs" by auto
    from Cons.IH [OF this] Inr show ?thesis by auto
  qed
qed

lemma collect_all_Inr:
  "(\<And>x. x \<in> set xs \<Longrightarrow> \<exists>v. x = Inr v) \<Longrightarrow> \<exists>vs. collect xs = Inr vs \<and> xs = map Inr vs"
proof (induction xs)
  case Nil
  then show ?case by simp
next
  case (Cons x xs)
  from Cons.prems [of x] obtain v where v: "x = Inr v" by auto
  from Cons.IH Cons.prems obtain vs where "collect xs = Inr vs" "xs = map Inr vs"
    by auto
  with v show ?case by simp
qed

lemma vram_at_in: "i < 524288 \<Longrightarrow> vram_at g i = Inr (g i)"
  by (simp add: vram_at_def VRAM_WIDTH_def VRAM_HEIGHT_def)

lemma vram_at_out: "524288 \<le> i \<Longrightarrow> vram_at g i = Inl (OutOfBounds i)"
  by (simp add: vram_at_def VRAM_WIDTH_def VRAM_HEIGHT_def)

lemma vram_at_fault: "vram_at g i = Inl e \<Longrightarrow> e = OutOfBounds i \<and> 524288 \<le> i"
  by (auto simp: vram_at_def VRAM_WIDTH_def VRAM_HEIGHT_def split: if_splits)

subsection \<open>15-bit readout\<close>

lemma upt2: "[0..<2] = [0, Suc 0]" "[0..<Suc 0] = [0]"
  by (simp_all add: numeral_2_eq_2)

lemma CopyOutRow16_unfold:
  "CopyOutRow16 f g p w =
     collect (map (\<lambda>col. case vram_at g (p + col) of
                          Inl e \<Rightarrow> Inl e
                        | Inr v \<Rightarrow> Inr (if col < (if f = RGBA5551 \<or> f = RGB565 then (w div 8) * 8 else 0)
                                         then vector_lane f v else VRAM16ToOutput f v)) [0..<w])"
  by (simp add: CopyOutRow16_def Let_def)

lemma CopyOutRow16_in:
  assumes "p + w \<le> 524288"
  shows "\<exists>ps. CopyOutRow16 f g p w = Inr ps \<and> length ps = w"
proof -
  define a where "a = (if f = RGBA5551 \<or> f = RGB565 then (w div 8) * 8 else 0)"
  let ?xs = "map (\<lambda>col. case vram_at g (p + col) of
                          Inl e \<Rightarrow> Inl e
                        | Inr v \<Rightarrow> Inr (if col < a then vector_lane f v
                                         else VRAM16ToOutput f v)) [0..<w]"
  have "\<exists>vs. collect ?xs = Inr vs \<and> ?xs = map Inr vs"
    using assms by (intro collect_all_Inr) (auto simp: vram_at_in)
  then obtain vs where vs: "collect ?xs = Inr vs" "?xs = map Inr vs"
    by blast
  have "length vs = length ?xs"
    by (subst vs(2)) simp
  then have "length vs = w" by simp
  with vs(1) show ?thesis
    unfolding CopyOutRow16_unfold a_def [symmetric] by blast
qed

lemma CopyOutRow16_out:
  assumes "524288 \<le> p" "0 < w"
  shows "\<exists>i\<ge>524288. CopyOutRow16 f g p w = Inl (OutOfBounds i)"
proof -
  define a where "a = (if f = RGBA5551 \<or> f = RGB565 then (w div 8) * 8 else 0)"
  let ?xs = "map (\<lambda>col. case vram_at g (p + col) of
                          Inl e \<Rightarrow> Inl e
                        | Inr v \<Rightarrow> Inr (if col < a then vector_lane f v
                                         else VRAM16ToOutput f v)) [0..<w]"
  have "Inl (OutOfBounds p) \<in> set ?xs"
    using assms by (auto simp: image_iff vram_at_out intro!: bexI [where x = 0])
  from collect_some_Inl [OF this]
  obtain e' where e': "collect ?xs = Inl e'" "Inl e' \<in> set ?xs"
    by blast
  from e'(2) obtain col where "(case vram_at g (p + col) of
                          Inl e \<Rightarrow> Inl e
                        | Inr v \<Rightarrow> Inr (if col < a then vector_lane f v
                                         else VRAM16ToOutput f v)) = Inl e'"
    by auto
  then have "vram_at g (p + col) = Inl e'"
    by (cases "vram_at g (p + col)") auto
  from vram_at_fault [OF this] have "e' = OutOfBounds (p + col)" "524288 \<le> p + col"
    by auto
  with e'(1) show ?thesis
    unfolding CopyOutRow16_unfold a_def [symmetric] by auto
qed


lemma unat_add_small:
  assumes "unat (a :: u32) + unat b \<le> 1024"
  shows "unat (a + b) = unat a + unat b"
  using assms by (simp add: unat_word_ariths)

lemma unat_mul_1024:
  assumes "unat (src_y :: u32) \<le> 512"
  shows "unat (src_y * 1024) = unat src_y * 1024"
  using assms by (simp add: unat_word_ariths)

lemma unat_row_base:
  assumes "unat (src_x :: u32) \<le> 1024" "unat (src_y :: u32) \<le> 512"
  shows "unat (src_y * 1024 + src_x) = unat src_y * 1024 + unat src_x"
  using assms by (simp add: unat_word_ariths unat_mul_1024)

lemma fast_guard15:
  assumes x: "unat src_x + unat width \<le> 1024" and y: "unat src_y + unat height \<le> 512"
  shows "src_x + width \<le> VRAM_WIDTH \<and> src_y + height \<le> VRAM_HEIGHT"
  using assms by (simp add: word_le_nat_alt unat_add_small VRAM_WIDTH_def VRAM_HEIGHT_def)

lemma CopyOut15Bit_fast:
  assumes x: "unat src_x + unat width \<le> 1024" and y: "unat src_y + unat height \<le> 512"
  shows "CopyOut15Bit f True g src_x src_y width height line_skip
           = map_sum id Some
               (collect (map (\<lambda>row. CopyOutRow16 f g
                                       (unat src_y * 1024 + unat src_x
                                        + row * unat (push_bit (unat line_skip) (1024 :: u32)))
                                       (unat width))
                          [0..<unat height]))"
proof -
  have "unat src_x \<le> 1024" "unat src_y \<le> 512" using x y by simp_all
  from unat_row_base [OF this] fast_guard15 [OF x y] show ?thesis
    by (simp add: CopyOut15Bit_def Let_def VRAM_WIDTH_def)
qed

lemma collect_Inl_mem: "collect xs = Inl e \<Longrightarrow> Inl e \<in> set xs"
proof (induction xs)
  case Nil
  then show ?case by simp
next
  case (Cons x xs)
  show ?case
  proof (cases x)
    case (Inl a)
    with Cons.prems show ?thesis by simp
  next
    case (Inr b)
    with Cons.prems have "collect xs = Inl e"
      by (cases "collect xs") simp_all
    from Cons.IH [OF this] show ?thesis by simp
  qed
qed

lemma CopyOutRow16_fault:
  assumes "CopyOutRow16 f g p w = Inl e"
  shows "\<exists>i\<ge>524288. e = OutOfBounds i"
proof -
  define a where "a = (if f = RGBA5551 \<or> f = RGB565 then (w div 8) * 8 else 0)"
  let ?xs = "map (\<lambda>col. case vram_at g (p + col) of
                          Inl e \<Rightarrow> Inl e
                        | Inr v \<Rightarrow> Inr (if col < a then vector_lane f v
                                         else VRAM16ToOutput f v)) [0..<w]"
  have c: "collect ?xs = Inl e"
    using assms unfolding CopyOutRow16_unfold a_def [symmetric] .
  from collect_Inl_mem [OF c]
  obtain col where "(case vram_at g (p + col) of
                          Inl e \<Rightarrow> Inl e
                        | Inr v \<Rightarrow> Inr (if col < a then vector_lane f v
                                         else VRAM16ToOutput f v)) = Inl e"
    by auto
  then have "vram_at g (p + col) = Inl e"
    by (cases "vram_at g (p + col)") auto
  from vram_at_fault [OF this] show ?thesis by auto
qed

lemma collect_rows_in:
  assumes "\<And>row. row < n \<Longrightarrow> \<exists>ps. F row = Inr ps \<and> length ps = w"
  shows "\<exists>rows. collect (map F [0..<n]) = Inr rows \<and> length rows = n
               \<and> (\<forall>r\<in>set rows. length r = w)"
proof -
  have "\<exists>vs. collect (map F [0..<n]) = Inr vs \<and> map F [0..<n] = map Inr vs"
    by (intro collect_all_Inr) (use assms in fastforce)
  then obtain vs where vs: "collect (map F [0..<n]) = Inr vs" "map F [0..<n] = map Inr vs"
    by blast
  have len: "length vs = n"
    using arg_cong [OF vs(2), of length] by simp
  have "length r = w" if "r \<in> set vs" for r
  proof -
    from that have "Inr r \<in> set (map F [0..<n])"
      by (simp add: vs(2))
    then obtain row where "row < n" "F row = Inr r" by auto
    with assms [of row] show ?thesis by auto
  qed
  with vs(1) len show ?thesis by blast
qed

text \<open>
  What does hold of the 15-bit fast path: without line skipping the guard keeps every read
  inside VRAM, and with \<open>line_skip = 1\<close> the reads stay inside exactly when the last row
  read, \<open>src_y + 2 * (height - 1)\<close>, is below 512.
\<close>

lemma CopyOut15Bit_progressive_in_bounds:
  assumes x: "unat src_x + unat width \<le> 1024" and y: "unat src_y + unat height \<le> 512"
  shows "\<exists>rows. CopyOut15Bit f True g src_x src_y width height 0 = Inr (Some rows)
           \<and> length rows = unat height \<and> (\<forall>r\<in>set rows. length r = unat width)"
proof -
  have "\<exists>ps. CopyOutRow16 f g (unat src_y * 1024 + unat src_x + row * 1024) (unat width) = Inr ps
              \<and> length ps = unat width" if "row < unat height" for row
    using x y that by (intro CopyOutRow16_in) simp
  from collect_rows_in [of "unat height"
         "\<lambda>row. CopyOutRow16 f g (unat src_y * 1024 + unat src_x + row * 1024) (unat width)",
         OF this]
  show ?thesis
    by (auto simp: CopyOut15Bit_fast [OF x y])
qed

lemma CopyOut15Bit_interleaved:
  assumes x: "unat src_x + unat width \<le> 1024" and y: "unat src_y + unat height \<le> 512"
      and w: "0 < unat width" and h: "0 < unat height"
  shows "(unat src_y + 2 * (unat height - 1) < 512 \<longrightarrow>
            (\<exists>rows. CopyOut15Bit f True g src_x src_y width height 1 = Inr (Some rows)
                    \<and> length rows = unat height))
       \<and> (512 \<le> unat src_y + 2 * (unat height - 1) \<longrightarrow>
            (\<exists>i\<ge>524288. CopyOut15Bit f True g src_x src_y width height 1 = Inl (OutOfBounds i)))"
proof -
  let ?F = "\<lambda>row. CopyOutRow16 f g (unat src_y * 1024 + unat src_x + row * 2048) (unat width)"
  have eq: "CopyOut15Bit f True g src_x src_y width height 1
              = map_sum id Some (collect (map ?F [0..<unat height]))"
    by (simp add: CopyOut15Bit_fast [OF x y])
  have inb: "\<exists>rows. CopyOut15Bit f True g src_x src_y width height 1 = Inr (Some rows)
                    \<and> length rows = unat height"
    if "unat src_y + 2 * (unat height - 1) < 512"
  proof -
    have "\<exists>ps. ?F row = Inr ps \<and> length ps = unat width" if "row < unat height" for row
      using x that \<open>unat src_y + 2 * (unat height - 1) < 512\<close>
      by (intro CopyOutRow16_in) simp
    from collect_rows_in [of "unat height" ?F, OF this] show ?thesis
      by (auto simp: eq)
  qed
  have oob: "\<exists>i\<ge>524288. CopyOut15Bit f True g src_x src_y width height 1 = Inl (OutOfBounds i)"
    if "512 \<le> unat src_y + 2 * (unat height - 1)"
  proof -
    have "524288 \<le> unat src_y * 1024 + unat src_x + (unat height - 1) * 2048"
      using that by simp
    from CopyOutRow16_out [OF this w, of f g]
    obtain i where "?F (unat height - 1) = Inl (OutOfBounds i)" by blast
    then have "Inl (OutOfBounds i) \<in> set (map ?F [0..<unat height])"
      using h by (auto simp: image_iff intro!: bexI [where x = "unat height - 1"])
    from collect_some_Inl [OF this]
    obtain e' where e': "collect (map ?F [0..<unat height]) = Inl e'"
      "Inl e' \<in> set (map ?F [0..<unat height])" by blast
    from e'(2) obtain row where "?F row = Inl e'" by auto
    from CopyOutRow16_fault [OF this] e'(1) show ?thesis
      by (auto simp: eq)
  qed
  show ?thesis using inb oob by blast
qed

text \<open>
  C9. The claim fails on the code: the fast-path guard of \<open>CopyOut15Bit\<close> tests
  \<open>src_y + height\<close>, not \<open>src_y + (height << line_skip)\<close> as the guard of \<open>CopyOut24Bit\<close> does,
  while the fast path steps \<open>VRAM_WIDTH << line_skip\<close> pixels a row. An interlaced,
  interleaved display of four lines from row 510 passes the guard (\<open>510 + 2 \<le> 512\<close>) and
  reads its second row at pixel index 524288, the first one past the end of VRAM.
\<close>

theorem CopyOut15Bit_interleaved_reads_past_vram:
  "(0 :: u32) + 1 \<le> VRAM_WIDTH \<and> (510 :: u32) + 2 \<le> VRAM_HEIGHT
   \<and> CopyOut15Bit RGB565 True (\<lambda>i. 0) 0 510 1 2 1 = Inl (OutOfBounds 524288)
   \<and> UpdateDisplay_CopyOut False RGB565 RGBA8 True (\<lambda>i. 0) interleaved_tail_cmd
       = Inl (OutOfBounds 524288)"
proof -
  have guard: "(0 :: u32) + 1 \<le> VRAM_WIDTH \<and> (510 :: u32) + 2 \<le> VRAM_HEIGHT"
    by (simp add: VRAM_WIDTH_def VRAM_HEIGHT_def)
  have copy: "CopyOut15Bit RGB565 True (\<lambda>i. 0) 0 510 1 2 1 = Inl (OutOfBounds 524288)"
    by (simp add: CopyOut15Bit_def Let_def VRAM_WIDTH_def VRAM_HEIGHT_def CopyOutRow16_def
                  vram_at_def upt2)
  have "UpdateDisplay_CopyOut False RGB565 RGBA8 True (\<lambda>i. 0) interleaved_tail_cmd
          = Inl (OutOfBounds 524288)"
    by (simp add: UpdateDisplay_CopyOut_def CopyOut_def interleaved_tail_cmd_def Let_def copy)
  with guard copy show ?thesis by blast
qed

subsection \<open>24-bit readout\<close>

text \<open>
  C3. The claim fails on the code. With \<open>src_x = 1023\<close> and \<open>width = 2\<close> the wrapping path is
  taken. For \<open>RGB565\<close> it puts the first byte of the sample into the low five bits and loses
  the third byte to a mask beyond 16 bits, where the fast path's conversion (and so the
  naive reference) puts the first byte into the high five bits: a red sample comes out as
  \<open>0x001F\<close> instead of \<open>0xF800\<close>. And the shift that selects the sample within its two words
  follows the parity of \<open>col\<close>, not of \<open>skip_x + col\<close>: with \<open>skip_x = 1\<close> the \<open>RGBA8\<close> pixel
  is built from bytes 0 to 2 of the row instead of bytes 1 to 3.
\<close>

theorem CopyOut24Bit_wrapping_differs_from_naive:
  "(1023 :: u32) + 2 > VRAM_WIDTH
   \<and> CopyOut24Bit RGB565 True vram_red 1023 0 0 2 1 0
       = Inr (Some [[Pixel16 0x001F, Pixel16 0]])
   \<and> naive_CopyOut24Bit RGB565 vram_red 1023 0 0 2 1 0 = [[Pixel16 0xF800, Pixel16 0]]
   \<and> CopyOut24Bit RGBA8 True vram_bytes 1023 0 1 2 1 0
       = Inr (Some [[Pixel32 0xFF332211, Pixel32 0xFF000000]])
   \<and> naive_CopyOut24Bit RGBA8 vram_bytes 1023 0 1 2 1 0
       = [[Pixel32 0xFF443322, Pixel32 0xFF000000]]"
proof -
  have "CopyOut24Bit RGB565 True vram_red 1023 0 0 2 1 0
          = Inr (Some [[Pixel16 0x001F, Pixel16 0]])"
    by (simp add: CopyOut24Bit_def Let_def VRAM_WIDTH_def VRAM_HEIGHT_def slow_pixel24_def
                  vram_at_def vram_red_def upt2)
  moreover have "naive_CopyOut24Bit RGB565 vram_red 1023 0 0 2 1 0 = [[Pixel16 0xF800, Pixel16 0]]"
    by (simp add: naive_CopyOut24Bit_def naive_pixel24_def row_byte_def Let_def vram_red_def upt2)
  moreover have "CopyOut24Bit RGBA8 True vram_bytes 1023 0 1 2 1 0
                   = Inr (Some [[Pixel32 0xFF332211, Pixel32 0xFF000000]])"
    by (simp add: CopyOut24Bit_def Let_def VRAM_WIDTH_def VRAM_HEIGHT_def slow_pixel24_def
                  vram_at_def vram_bytes_def upt2)
  moreover have "naive_CopyOut24Bit RGBA8 vram_bytes 1023 0 1 2 1 0
                   = [[Pixel32 0xFF443322, Pixel32 0xFF000000]]"
    by (simp add: naive_CopyOut24Bit_def naive_pixel24_def row_byte_def Let_def vram_bytes_def upt2)
  moreover have "(1023 :: u32) + 2 > VRAM_WIDTH"
    by (simp add: VRAM_WIDTH_def)
  ultimately show ?thesis by blast
qed

end
